theory Spec2Isabelle
  imports Complex_Main "HOL-Library.Sublist"
begin

unbundle bit_operations_syntax

section \<open>Public API: version query (api.py)\<close>

text \<open>Python integers are unbounded, so the version word is computed over \<open>int\<close>.\<close>

definition API_version_major :: int where
  "API_version_major = 1"

definition API_version_minor :: int where
  "API_version_minor = 0"

definition npu_get_API_version :: int where
  "npu_get_API_version = (push_bit 16 API_version_major) OR (API_version_minor AND 0xFFFF)"

section \<open>Exceptions\<close>

text \<open>Every Python exception the modelled code can raise is a value of this type; a
  function that may raise returns \<open>error + 'a\<close> with \<open>Inl\<close> for the exception. An
  \<open>AssertionError\<close> carries the condition of the \<open>assert\<close> statement that failed.\<close>

datatype error =
    AssertionError string
  | AttributeError
  | ZeroDivisionError
  | ValueError
  | TypeError
  | IndexError
  | KeyError

section \<open>Tensors (tensor.py)\<close>

text \<open>Python objects have identity and are shared by reference; a reference is a
  natural number and the objects live in an explicit store.\<close>

type_synonym tens_ref = nat
type_synonym op_ref = nat

text \<open>\<open>TensorPurpose.LUT\<close> is used by lut.py; the enumeration of tensor.py is extended
  by it, as in the data model of the specification.\<close>

datatype TensorPurpose = Unknown | Weights | FeatureMap | Scratch | LUT

datatype DataType = uint8 | int8 | uint16 | int16 | int32 | int64 | float32

text \<open>A floating point value: only its IEEE class is ever inspected (\<open>np.isinf\<close>).\<close>

datatype float = Finite real | PosInf | NegInf | NaN

fun isinf :: "float \<Rightarrow> bool" where
  "isinf PosInf = True"
| "isinf NegInf = True"
| "isinf (Finite x) = False"
| "isinf NaN = False"

text \<open>\<open>scale_f32\<close> and \<open>zero_point\<close> are \<open>None\<close>, a scalar (a one-element list) or an
  array (the list of its elements).\<close>

record QuantizationParameters =
  scale_f32 :: "float list option"
  zero_point :: "int list option"

text \<open>The fields of class \<open>Tensor\<close> that the modelled modules read or write. A dimension
  of a shape is \<open>None\<close> when it is not defined. \<open>values_present\<close> records whether the
  attribute \<open>values\<close> is set (\<open>values is not None\<close>). \<open>storage_size\<close> is the result of the method
  \<open>storage_size()\<close>, which depends only on fields that are never written here. An entry
  of \<open>consumer_list\<close> is an operation or \<open>None\<close>.\<close>

record Tensor =
  shape :: "int option list"
  dtype :: DataType
  values_present :: bool
  quant_values :: "int list option"
  quantization :: "QuantizationParameters option"
  element_size_bytes :: int
  purpose :: TensorPurpose
  ops :: "op_ref list"
  consumer_list :: "op_ref option list"
  address :: int
  storage_size :: int
  equivalence_id :: nat

text \<open>The values of the attributes of an operation.\<close>

datatype attr_value =
    IntAttr int
  | FloatAttr float
  | BoolAttr bool
  | BytesAttr string
  | ListAttr "int list"

section \<open>Lookup table allocation (lut.py)\<close>

subsection \<open>Helpers of other modules\<close>

text \<open>Modelled from the spec: \<open>numeric_util.overlaps\<close> is not part of the sources at
  hand. Two LUTs overlap iff their half-open address intervals intersect.\<close>

definition overlaps :: "int \<Rightarrow> int \<Rightarrow> int \<Rightarrow> int \<Rightarrow> bool" where
  "overlaps start1 end1 start2 end2 = (max start1 start2 < min end1 end2)"

text \<open>Modelled from the spec: \<open>Tensor.equivalent\<close> is not part of the sources at hand.
  A resident LUT is equivalent to another one iff their \<open>equivalence_id\<close>s are equal.\<close>

definition equivalent :: "Tensor \<Rightarrow> Tensor \<Rightarrow> bool" where
  "equivalent t1 t2 = (equivalence_id t1 = equivalence_id t2)"

text \<open>Python's \<open>range(start, stop, step)\<close> as a list; a zero step raises \<open>ValueError\<close>
  at the caller.\<close>

definition py_range :: "int \<Rightarrow> int \<Rightarrow> int \<Rightarrow> int list" where
  "py_range start stop step =
     (if 0 < step then
        map (\<lambda>k. start + int k * step) [0 ..< nat ((stop - start + step - 1) div step)]
      else if step < 0 then
        map (\<lambda>k. start + int k * step) [0 ..< nat ((start - stop - step - 1) div (- step))]
      else [])"

subsection \<open>Class LUTState\<close>

text \<open>The state holds references to tensor objects; their addresses are read from the
  store at the time of each call.\<close>

record LUTState =
  tensors :: "tens_ref list"

definition LUTState_init :: LUTState where
  "LUTState_init = \<lparr>tensors = []\<rparr>"

definition get_equivalent :: "(tens_ref \<Rightarrow> Tensor) \<Rightarrow> LUTState \<Rightarrow> tens_ref \<Rightarrow> tens_ref option" where
  "get_equivalent T self lut_tens = find (\<lambda>t. equivalent (T t) (T lut_tens)) (tensors self)"

definition put :: "(tens_ref \<Rightarrow> Tensor) \<Rightarrow> LUTState \<Rightarrow> tens_ref \<Rightarrow> LUTState" where
  "put T self lut_tens =
     (let start = address (T lut_tens);
          end = start + storage_size (T lut_tens)
      in \<lparr>tensors = lut_tens #
            filter (\<lambda>tens. \<not> overlaps start end (address (T tens))
                                  (address (T tens) + storage_size (T tens)))
              (tensors self)\<rparr>)"

text \<open>The inner loop of \<open>find_best_address\<close>: the number of resident tensors that
  overlap \<open>[addr, addr + step)\<close>.\<close>

definition nr_overlaps :: "(tens_ref \<Rightarrow> Tensor) \<Rightarrow> LUTState \<Rightarrow> int \<Rightarrow> int \<Rightarrow> int" where
  "nr_overlaps T self addr step =
     int (length (filter (\<lambda>tens. overlaps addr (addr + step) (address (T tens))
                                    (address (T tens) + storage_size (T tens)))
                    (tensors self)))"

text \<open>The outer loop, with the pair \<open>(best_addr, best_nr_overlaps)\<close> as loop state.\<close>

fun find_best_loop ::
  "(tens_ref \<Rightarrow> Tensor) \<Rightarrow> LUTState \<Rightarrow> int \<Rightarrow> int list \<Rightarrow> int \<times> int \<Rightarrow> int \<times> int" where
  "find_best_loop T self step [] best = best"
| "find_best_loop T self step (addr # addrs) (best_addr, best_nr_overlaps) =
     (if nr_overlaps T self addr step < best_nr_overlaps
      then find_best_loop T self step addrs (addr, nr_overlaps T self addr step)
      else find_best_loop T self step addrs (best_addr, best_nr_overlaps))"

definition find_best_address ::
  "(tens_ref \<Rightarrow> Tensor) \<Rightarrow> LUTState \<Rightarrow> int \<Rightarrow> int \<Rightarrow> int \<Rightarrow> error + int" where
  "find_best_address T self start stop step =
     (if step = 0 then Inl ValueError
      else Inr (fst (find_best_loop T self step (py_range start stop step) (start, stop))))"

subsection \<open>The rewrite of the high level command stream\<close>

record ArchitectureFeatures =
  shram_lut_address :: int
  shram_lut_size :: int
  shram_reserved_unused_banks :: int

text \<open>The fields of a command's pass that the rewrite uses.\<close>

record CmdPass =
  lut_tensor :: "tens_ref option"
  primary_op :: "op_ref option"

text \<open>\<open>CommandType\<close> has the members \<open>NpuStripe\<close> and \<open>DMA\<close>; only a DMA command has
  an \<open>out_tensor\<close>.\<close>

datatype Command =
    NpuStripe (ps: CmdPass)
  | DMA (ps: CmdPass) (out_tensor: tens_ref)

text \<open>The objects the rewrite mutates: tensors (their \<open>address\<close>) and the attribute
  \<open>lut_index\<close> of primary operations.\<close>

record Store =
  tens :: "tens_ref \<Rightarrow> Tensor"
  lut_index :: "op_ref \<Rightarrow> int option"

definition set_address :: "Store \<Rightarrow> tens_ref \<Rightarrow> int \<Rightarrow> Store" where
  "set_address S t a = S\<lparr>tens := (tens S)(t := (tens S t)\<lparr>address := a\<rparr>)\<rparr>"

definition set_lut_index :: "Store \<Rightarrow> op_ref \<Rightarrow> int \<Rightarrow> Store" where
  "set_lut_index S p i = S\<lparr>lut_index := (lut_index S)(p := Some i)\<rparr>"

definition get_lut_index :: "ArchitectureFeatures \<Rightarrow> Tensor \<Rightarrow> error + int" where
  "get_lut_index arch lut_tens =
     (if storage_size lut_tens = 0 then Inl ZeroDivisionError
      else let slot = (address lut_tens - shram_lut_address arch) div storage_size lut_tens
           in if 0 \<le> slot \<and> slot < 8 then Inr slot
              else Inl (AssertionError ''0 <= slot < 8''))"

definition slot_size :: int where
  "slot_size = 256"

text \<open>One iteration of the loop over the command stream. The loop state is the store,
  \<open>lut_state\<close> and the new command stream \<open>cmd_stream\<close>.\<close>

fun rewrite_cmd ::
  "ArchitectureFeatures \<Rightarrow> Command \<Rightarrow> Store \<times> LUTState \<times> Command list
     \<Rightarrow> error + (Store \<times> LUTState \<times> Command list)" where
  "rewrite_cmd arch (NpuStripe p) (S, lut_state, cmd_stream) =
     Inr (S,
          (if lut_tensor p = None \<and> shram_reserved_unused_banks arch = 0
           then LUTState_init else lut_state),
          cmd_stream @ [NpuStripe p])"
| "rewrite_cmd arch (DMA p lut_tens) (S, lut_state, cmd_stream) =
     (if purpose (tens S lut_tens) \<noteq> TensorPurpose.LUT then Inr (S, lut_state, cmd_stream @ [DMA p lut_tens])
      else
        case get_equivalent (tens S) lut_state lut_tens of
          Some existing_tens \<Rightarrow>
            (let S1 = set_address S lut_tens (address (tens S existing_tens))
             in case get_lut_index arch (tens S1 existing_tens) of
                  Inl e \<Rightarrow> Inl e
                | Inr slot \<Rightarrow>
                    (case primary_op p of
                       None \<Rightarrow> Inl AttributeError
                     | Some pop \<Rightarrow> Inr (set_lut_index S1 pop slot, lut_state, cmd_stream)))
        | None \<Rightarrow>
            (case find_best_address (tens S) lut_state (shram_lut_address arch)
                    (shram_lut_address arch + shram_lut_size arch)
                    (storage_size (tens S lut_tens)) of
               Inl e \<Rightarrow> Inl e
             | Inr addr \<Rightarrow>
                 (let S1 = set_address S lut_tens addr
                  in case primary_op p of
                       None \<Rightarrow> Inl AttributeError
                     | Some pop \<Rightarrow>
                         (let S2 = set_lut_index S1 pop
                                     ((addr - shram_lut_address arch) div slot_size)
                          in Inr (S2, put (tens S2) lut_state lut_tens,
                                  cmd_stream @ [DMA p lut_tens])))))"

fun rewrite_cmds ::
  "ArchitectureFeatures \<Rightarrow> Command list \<Rightarrow> Store \<times> LUTState \<times> Command list
     \<Rightarrow> error + (Store \<times> LUTState \<times> Command list)" where
  "rewrite_cmds arch [] s = Inr s"
| "rewrite_cmds arch (cmd # cmds) s =
     (case rewrite_cmd arch cmd s of
        Inl e \<Rightarrow> Inl e
      | Inr s' \<Rightarrow> rewrite_cmds arch cmds s')"

text \<open>The function returns the mutated store and the new value of
  \<open>sg.high_level_command_stream\<close>.\<close>

definition optimize_high_level_cmd_stream ::
  "ArchitectureFeatures \<Rightarrow> Store \<Rightarrow> Command list \<Rightarrow> error + (Store \<times> Command list)" where
  "optimize_high_level_cmd_stream arch S high_level_command_stream =
     (case rewrite_cmds arch high_level_command_stream (S, LUTState_init, []) of
        Inl e \<Rightarrow> Inl e
      | Inr (S', lut_state, cmd_stream) \<Rightarrow> Inr (S', cmd_stream))"

subsection \<open>Notions used to state the properties of the rewrite\<close>

text \<open>Whether the address intervals of two tensors of the store overlap.\<close>

definition interval_overlap :: "(tens_ref \<Rightarrow> Tensor) \<Rightarrow> tens_ref \<Rightarrow> tens_ref \<Rightarrow> bool" where
  "interval_overlap T t1 t2 =
     overlaps (address (T t1)) (address (T t1) + storage_size (T t1))
              (address (T t2)) (address (T t2) + storage_size (T t2))"

text \<open>The invariant of the loop over the command stream: two different resident
  tensors are neither equivalent nor overlapping.\<close>

definition lut_state_inv :: "(tens_ref \<Rightarrow> Tensor) \<Rightarrow> LUTState \<Rightarrow> bool" where
  "lut_state_inv T st =
     (\<forall>t1 \<in> set (tensors st). \<forall>t2 \<in> set (tensors st).
        t1 \<noteq> t2 \<longrightarrow> \<not> equivalent (T t1) (T t2) \<and> \<not> interval_overlap T t1 t2)"

text \<open>A DMA command whose output tensor has purpose LUT.\<close>

definition is_lut_dma :: "(tens_ref \<Rightarrow> Tensor) \<Rightarrow> Command \<Rightarrow> bool" where
  "is_lut_dma T cmd = (case cmd of NpuStripe p \<Rightarrow> False | DMA p t \<Rightarrow> purpose (T t) = TensorPurpose.LUT)"

text \<open>\<open>drops_only P xs ys\<close>: the list \<open>ys\<close> is \<open>xs\<close> with some elements that satisfy
  \<open>P\<close> removed; everything else is kept, in order.\<close>

fun drops_only :: "('a \<Rightarrow> bool) \<Rightarrow> 'a list \<Rightarrow> 'a list \<Rightarrow> bool" where
  "drops_only P [] ys = (ys = [])"
| "drops_only P (x # xs) ys =
     ((case ys of [] \<Rightarrow> False | y # ys' \<Rightarrow> x = y \<and> drops_only P xs ys')
      \<or> (P x \<and> drops_only P xs ys))"

subsection \<open>Concrete command streams and LUT states\<close>

text \<open>A LUT tensor of \<open>sz\<close> bytes at address \<open>addr\<close>.\<close>

definition lut_tensor_at :: "int \<Rightarrow> int \<Rightarrow> nat \<Rightarrow> Tensor" where
  "lut_tensor_at addr sz eid =
     \<lparr>shape = [Some 1, Some 1, Some 1, Some sz], dtype = int8, values_present = True,
      quant_values = None, quantization = None, element_size_bytes = 0,
      purpose = TensorPurpose.LUT, ops = [], consumer_list = [],
      address = addr, storage_size = sz, equivalence_id = eid\<rparr>"



text \<open>One resident 256 byte LUT at address 0.\<close>

definition one_lut_tensors :: "tens_ref \<Rightarrow> Tensor" where
  "one_lut_tensors t = lut_tensor_at 0 256 t"

definition one_lut_state :: LUTState where
  "one_lut_state = \<lparr>tensors = [0]\<rparr>"

text \<open>A LUT region of 2048 bytes at address 1024. Tensor 0 is a 256 byte LUT; tensors 1
  and 2 are two 512 byte LUTs with the same equivalence id. The stream copies them in
  this order.\<close>

definition example_arch :: ArchitectureFeatures where
  "example_arch = \<lparr>shram_lut_address = 1024, shram_lut_size = 2048,
                    shram_reserved_unused_banks = 2\<rparr>"

definition example_store :: Store where
  "example_store =
     \<lparr>tens = (\<lambda>t. if t = 0 then lut_tensor_at 0 256 1 else lut_tensor_at 0 512 2),
      lut_index = (\<lambda>p. None)\<rparr>"

definition dma_cmd :: "op_ref \<Rightarrow> tens_ref \<Rightarrow> Command" where
  "dma_cmd pop t = DMA \<lparr>lut_tensor = Some t, primary_op = Some pop\<rparr> t"

definition stripe_cmd :: "op_ref \<Rightarrow> tens_ref \<Rightarrow> Command" where
  "stripe_cmd pop t = NpuStripe \<lparr>lut_tensor = Some t, primary_op = Some pop\<rparr>"

definition example_stream :: "Command list" where
  "example_stream = [dma_cmd 10 0, dma_cmd 11 1, dma_cmd 12 2]"

definition example_result_store :: Store where
  "example_result_store =
     \<lparr>tens = (\<lambda>t. if t = 0 then lut_tensor_at 1024 256 1
                   else if t = 1 \<or> t = 2 then lut_tensor_at 1536 512 2
                   else lut_tensor_at 0 512 2),
      lut_index = (\<lambda>p. if p = 10 then Some 0 else if p = 11 then Some 2
                        else if p = 12 then Some 1 else None)\<rparr>"

text \<open>The same table is copied before each of two stripes that use it (tensors 0 and 3
  have the same equivalence id).\<close>

definition repeated_store :: Store where
  "repeated_store = \<lparr>tens = (\<lambda>t. lut_tensor_at 0 256 1), lut_index = (\<lambda>p. None)\<rparr>"

definition repeated_stream :: "Command list" where
  "repeated_stream = [dma_cmd 10 0, stripe_cmd 10 0, dma_cmd 11 3, stripe_cmd 11 3]"

definition repeated_result_store :: Store where
  "repeated_result_store =
     \<lparr>tens = (\<lambda>t. if t = 0 \<or> t = 3 then lut_tensor_at 1024 256 1 else lut_tensor_at 0 256 1),
      lut_index = (\<lambda>p. if p = 10 \<or> p = 11 then Some 0 else None)\<rparr>"

section \<open>Operator legality (supported_operators.py)\<close>

subsection \<open>Operator kinds, data types and operations\<close>

text \<open>The members of the enumeration \<open>Op\<close> (operation.py) that supported_operators.py
  and its unit tests name.\<close>

datatype Op =
    SplitSliceRead | Conv2DBias | Conv2D | QuantizedConv2D | DepthwiseConv2DBias
  | Conv2DBackpropInput | ReduceSum | ResizeBilinear | QuantizedMatMul | MatMul
  | FullyConnected | BlockLSTM | Minimum | Maximum | SHL | SHR | Add | Mul | Sub | CLZ
  | Tanh | Sigmoid | Softmax | ConcatSliceWrite | Quantize | Split | SplitV | StridedSlice
  | Slice | UnpackReshaped | Unpack | Concat | ConcatTFLite | PackReshaped | Pack | Squeeze
  | Reshape | QuantizedReshape | LUT | LeakyRelu | Placeholder | SubgraphInput | Const
  | Relu | Relu6 | ReluN1To1 | MaxPool | QuantizedMaxPool | AvgPool | QuantizedAvgPool | Abs

text \<open>Modelled from the spec: data_type.py is not part of the sources at hand.
  Signedness and bit width of a data type are intrinsic.\<close>

fun is_signed :: "DataType \<Rightarrow> bool" where
  "is_signed int8 = True"
| "is_signed int16 = True"
| "is_signed int32 = True"
| "is_signed int64 = True"
| "is_signed uint8 = False"
| "is_signed uint16 = False"
| "is_signed float32 = False"

fun is_unsigned :: "DataType \<Rightarrow> bool" where
  "is_unsigned uint8 = True"
| "is_unsigned uint16 = True"
| "is_unsigned int8 = False"
| "is_unsigned int16 = False"
| "is_unsigned int32 = False"
| "is_unsigned int64 = False"
| "is_unsigned float32 = False"

fun size_in_bits :: "DataType \<Rightarrow> int" where
  "size_in_bits uint8 = 8"
| "size_in_bits int8 = 8"
| "size_in_bits uint16 = 16"
| "size_in_bits int16 = 16"
| "size_in_bits int32 = 32"
| "size_in_bits int64 = 64"
| "size_in_bits float32 = 32"

text \<open>\<open>Tensor.element_size\<close>, in bytes (a Python float).\<close>

definition element_size :: "Tensor \<Rightarrow> rat" where
  "element_size self =
     (if element_size_bytes self = 0 then of_int (size_in_bits (dtype self)) / 8
      else of_int (element_size_bytes self))"

definition shape_fully_defined :: "int option list \<Rightarrow> bool" where
  "shape_fully_defined shp = list_all (\<lambda>d. d \<noteq> None) shp"

definition has_fully_defined_shape :: "Tensor \<Rightarrow> bool" where
  "has_fully_defined_shape self = shape_fully_defined (shape self)"

text \<open>Modelled from the spec: \<open>QuantizationParameters.is_per_axis\<close> is not part of the
  sources at hand. A tensor is per-axis quantized iff \<open>zero_point\<close> is a multi-element
  array.\<close>

definition is_per_axis :: "QuantizationParameters \<Rightarrow> bool" where
  "is_per_axis self = (case zero_point self of None \<Rightarrow> False | Some zs \<Rightarrow> 1 < length zs)"

record ActivationFunction =
  op_type :: Op

text \<open>An operation as the checker sees it. Tensors are read only here, so the lists hold
  the tensors themselves; an entry is \<open>None\<close> where the Python list holds \<open>None\<close>. The
  properties \<open>ifm\<close>, \<open>ifm2\<close>, \<open>weights\<close>, \<open>bias\<close> and \<open>ofm\<close> of operation.py, which
  pick tensors of \<open>inputs\<close> and \<open>outputs\<close> by operator kind, are not part of the
  sources at hand: their results are fields.\<close>

record Operation =
  type :: Op
  inputs :: "Tensor option list"
  outputs :: "Tensor option list"
  ifm :: "Tensor option"
  ifm2 :: "Tensor option"
  weights :: "Tensor option"
  bias :: "Tensor option"
  ofm :: "Tensor option"
  attrs :: "string \<Rightarrow> attr_value option"
  activation :: "ActivationFunction option"

definition get_ifm_ifm2_weights_ofm :: "Operation \<Rightarrow> Tensor option list" where
  "get_ifm_ifm2_weights_ofm self = [ifm self, ifm2 self, weights self, ofm self]"

text \<open>\<open>[tens for tens in xs if tens]\<close>: a tensor object is true, \<open>None\<close> is false.\<close>

fun not_none :: "'a option list \<Rightarrow> 'a list" where
  "not_none [] = []"
| "not_none (None # xs) = not_none xs"
| "not_none (Some x # xs) = x # not_none xs"

subsection \<open>The categorised sets of operators and the ranges\<close>

definition npu_pre_ops :: "Op set" where
  "npu_pre_ops = {SplitSliceRead}"

definition convolution_ops :: "Op set" where
  "convolution_ops = {Conv2DBias, Conv2D, QuantizedConv2D}"

definition depthwise_convolution_ops :: "Op set" where
  "depthwise_convolution_ops = {DepthwiseConv2DBias}"

definition transpose_convolution_ops :: "Op set" where
  "transpose_convolution_ops = {Conv2DBackpropInput}"

definition convolution_like_ops :: "Op set" where
  "convolution_like_ops =
     convolution_ops \<union> depthwise_convolution_ops \<union> transpose_convolution_ops"

text \<open>Modelled from the spec: \<open>Op.op_set\<close> and the predicates \<open>Op.is_maxpool_op\<close>,
  \<open>Op.is_avgpool_op\<close>, \<open>Op.is_unary_elementwise_op\<close> and \<open>Op.is_relu_op\<close> are not part
  of the sources at hand. The sets are the max pooling, average pooling, unary
  elementwise and Relu families of the constraint table; the unit tests use \<open>CLZ\<close> and
  \<open>LeakyRelu\<close> as unary elementwise operators.\<close>

definition max_pooling_ops :: "Op set" where
  "max_pooling_ops = {MaxPool, QuantizedMaxPool}"

definition avg_pooling_ops :: "Op set" where
  "avg_pooling_ops = {AvgPool, QuantizedAvgPool}"

definition unary_elem_wise_main_ops :: "Op set" where
  "unary_elem_wise_main_ops = {Abs, LeakyRelu, CLZ}"

definition relu_ops :: "Op set" where
  "relu_ops = {Relu, Relu6, ReluN1To1}"

definition pooling_ops :: "Op set" where
  "pooling_ops = {ReduceSum} \<union> max_pooling_ops \<union> avg_pooling_ops"

definition resizing_ops :: "Op set" where
  "resizing_ops = {ResizeBilinear}"

definition fc_vector_products :: "Op set" where
  "fc_vector_products = {QuantizedMatMul, MatMul, FullyConnected}"

definition mac_main_ops :: "Op set" where
  "mac_main_ops =
     {BlockLSTM} \<union> convolution_like_ops \<union> pooling_ops \<union> resizing_ops \<union> fc_vector_products"

definition binary_elem_wise_min_max_ops :: "Op set" where
  "binary_elem_wise_min_max_ops = {Minimum, Maximum}"

definition binary_elem_wise_shift_ops :: "Op set" where
  "binary_elem_wise_shift_ops = {SHL, SHR}"

definition binary_elem_wise_add_mul_sub :: "Op set" where
  "binary_elem_wise_add_mul_sub = {Add, Mul, Sub}"

definition binary_elem_wise_main_ops :: "Op set" where
  "binary_elem_wise_main_ops =
     binary_elem_wise_min_max_ops \<union> binary_elem_wise_add_mul_sub \<union> binary_elem_wise_shift_ops"

definition elem_wise_main_ops :: "Op set" where
  "elem_wise_main_ops = binary_elem_wise_main_ops \<union> unary_elem_wise_main_ops"

definition supported_int32_tensor_ops :: "Op set" where
  "supported_int32_tensor_ops =
     {ReduceSum, CLZ} \<union> binary_elem_wise_add_mul_sub \<union> binary_elem_wise_shift_ops"

definition activation_ops :: "Op set" where
  "activation_ops = relu_ops \<union> {Tanh, Sigmoid, Softmax}"

definition npu_post_ops :: "Op set" where
  "npu_post_ops = activation_ops \<union> {ConcatSliceWrite} \<union> {Quantize}"

definition split_ops :: "Op set" where
  "split_ops = {Split, SplitV, StridedSlice, Slice, UnpackReshaped, Unpack}"

definition concat_ops :: "Op set" where
  "concat_ops = {Concat, ConcatTFLite, PackReshaped, Pack}"

definition memory_only_ops :: "Op set" where
  "memory_only_ops = {Squeeze, Reshape, QuantizedReshape} \<union> concat_ops \<union> split_ops"

definition shapeless_input_ops :: "Op set" where
  "shapeless_input_ops = binary_elem_wise_main_ops \<union> {Split, SplitV}"

definition per_axis_quant_ops :: "Op set" where
  "per_axis_quant_ops = convolution_like_ops"

definition supported_fused_activations :: "Op set" where
  "supported_fused_activations = relu_ops \<union> {Tanh, Sigmoid, Op.LUT}"

definition supported_operators :: "Op set" where
  "supported_operators =
     npu_pre_ops \<union> mac_main_ops \<union> elem_wise_main_ops \<union> npu_post_ops \<union> memory_only_ops"

definition supported_op_dtypes :: "DataType set" where
  "supported_op_dtypes = {uint8, int8, int16, int32}"

definition supported_bias_dtypes :: "DataType set" where
  "supported_bias_dtypes = {int32, int64}"

definition tens_dim_range :: "int \<times> int" where
  "tens_dim_range = (1, 65535)"

subsection \<open>Generic constraints\<close>

text \<open>A constraint returns \<open>(valid, extra)\<close>; the diagnostic string \<open>extra\<close> and the
  messages printed by \<open>is_operator_supported\<close> are not modelled. An exception raised by a
  constraint is the result \<open>Inl\<close>.\<close>

type_synonym constraint = "Operation \<Rightarrow> error + bool"

definition constraint_tens_no_dynamic :: constraint where
  "constraint_tens_no_dynamic op =
     Inr (list_all (\<lambda>tens. \<not> (shape tens = [] \<and> \<not> values_present tens))
            (not_none (inputs op @ outputs op)))"

definition constraint_tens_defined_shape :: constraint where
  "constraint_tens_defined_shape op =
     Inr (list_all has_fully_defined_shape (not_none (inputs op @ outputs op)))"

definition constraint_tens_output_scalar :: constraint where
  "constraint_tens_output_scalar op =
     (case ofm op of
        None \<Rightarrow> Inl AttributeError
      | Some t \<Rightarrow> Inr (shape t \<noteq> []))"

definition constraint_tens_input_scalar :: constraint where
  "constraint_tens_input_scalar op =
     Inr (list_all (\<lambda>tens. \<not> (shape tens = [] \<and> type op \<notin> shapeless_input_ops))
            (not_none (inputs op)))"

definition constraint_tens_shape_size :: constraint where
  "constraint_tens_shape_size op =
     Inr (list_all (\<lambda>tens. \<not> 4 < length (shape tens)) (not_none (inputs op @ outputs op)))"

text \<open>The tensors that the data type, int32 and dimension constraints look at.\<close>

definition checked_tensors :: "Operation \<Rightarrow> Tensor list" where
  "checked_tensors op =
     (let ts = not_none (get_ifm_ifm2_weights_ofm op)
      in if ts = [] then not_none (inputs op) else ts)"

definition constraint_tens_dtype :: constraint where
  "constraint_tens_dtype op =
     Inr (list_all (\<lambda>tens. dtype tens \<in> supported_op_dtypes) (checked_tensors op))"

definition constraint_tens_int32_ops :: constraint where
  "constraint_tens_int32_ops op =
     Inr (list_all (\<lambda>tens. \<not> (dtype tens = int32 \<and> type op \<notin> supported_int32_tensor_ops))
            (checked_tensors op))"

text \<open>\<open>all(tens_min <= dim <= tens_max for dim in tens.shape)\<close> stops at the first
  dimension out of range; comparing \<open>None\<close> with an integer raises \<open>TypeError\<close>.\<close>

fun all_dims_in_range :: "int option list \<Rightarrow> error + bool" where
  "all_dims_in_range [] = Inr True"
| "all_dims_in_range (None # dims) = Inl TypeError"
| "all_dims_in_range (Some d # dims) =
     (if fst tens_dim_range \<le> d \<and> d \<le> snd tens_dim_range then all_dims_in_range dims
      else Inr False)"

fun tens_dimension_loop :: "Tensor list \<Rightarrow> bool \<Rightarrow> error + bool" where
  "tens_dimension_loop [] valid = Inr valid"
| "tens_dimension_loop (t # rest) valid =
     (case all_dims_in_range (shape t) of
        Inl e \<Rightarrow> Inl e
      | Inr ok \<Rightarrow> tens_dimension_loop rest (if \<not> ok then False else valid))"

definition constraint_tens_dimension :: constraint where
  "constraint_tens_dimension op = tens_dimension_loop (checked_tensors op) True"

definition constraint_tens_quant_none_check :: constraint where
  "constraint_tens_quant_none_check op =
     Inr (list_all (\<lambda>tens. quantization tens \<noteq> None) (not_none (get_ifm_ifm2_weights_ofm op)))"

text \<open>\<open>tens.quantization.scale_f32\<close> raises \<open>AttributeError\<close> when the tensor has no
  quantization.\<close>

fun quant_scale_loop :: "Tensor list \<Rightarrow> bool \<Rightarrow> error + bool" where
  "quant_scale_loop [] valid = Inr valid"
| "quant_scale_loop (t # rest) valid =
     (case quantization t of
        None \<Rightarrow> Inl AttributeError
      | Some q \<Rightarrow>
          quant_scale_loop rest
            (if (case scale_f32 q of None \<Rightarrow> False | Some s \<Rightarrow> list_ex isinf s) then False
             else valid))"

definition constraint_tens_quant_scale :: constraint where
  "constraint_tens_quant_scale op =
     quant_scale_loop (not_none (get_ifm_ifm2_weights_ofm op)) True"

fun quant_per_axis_loop :: "Tensor list \<Rightarrow> bool \<Rightarrow> error + bool" where
  "quant_per_axis_loop [] valid = Inr valid"
| "quant_per_axis_loop (t # rest) valid =
     (case quantization t of
        None \<Rightarrow> Inl AttributeError
      | Some q \<Rightarrow> quant_per_axis_loop rest (if is_per_axis q then False else valid))"

definition constraint_tens_quant_per_axis :: constraint where
  "constraint_tens_quant_per_axis op =
     (if type op \<notin> per_axis_quant_ops
      then quant_per_axis_loop (not_none (get_ifm_ifm2_weights_ofm op)) True
      else Inr True)"

definition constraint_faf :: constraint where
  "constraint_faf op =
     (case activation op of
        None \<Rightarrow> Inr True
      | Some act \<Rightarrow> Inr (op_type act \<in> supported_fused_activations))"

subsection \<open>Specific constraints\<close>

text \<open>The length of \<open>bin(q)[2:]\<close>: the binary digits of a non-negative integer, and the
  letter \<open>b\<close> followed by the digits of the absolute value of a negative one.\<close>

fun bit_length :: "nat \<Rightarrow> nat" where
  "bit_length n = (if n = 0 then 0 else Suc (bit_length (n div 2)))"

declare bit_length.simps [simp del]

definition bin_tail_len :: "int \<Rightarrow> nat" where
  "bin_tail_len q =
     (if q < 0 then Suc (bit_length (nat (- q))) else max 1 (bit_length (nat q)))"

definition constraint_weights_type :: constraint where
  "constraint_weights_type op =
     (case weights op of
        None \<Rightarrow> Inl AttributeError
      | Some w \<Rightarrow> Inr (element_size w = 1))"

definition constraint_weights_const :: constraint where
  "constraint_weights_const op =
     (case weights op of
        None \<Rightarrow> Inl AttributeError
      | Some w \<Rightarrow> Inr (values_present w))"

definition constraint_bias_type :: constraint where
  "constraint_bias_type op =
     (case bias op of
        Some b \<Rightarrow> Inr (dtype b \<in> supported_bias_dtypes)
      | None \<Rightarrow> Inr True)"

definition constraint_bias_40bit :: constraint where
  "constraint_bias_40bit op =
     (case bias op of
        Some b \<Rightarrow>
          (if dtype b = int64 \<and> quant_values b \<noteq> None
           then Inr (list_all (\<lambda>quant_value. bin_tail_len quant_value \<le> 40)
                       (the (quant_values b)))
           else Inr True)
      | None \<Rightarrow> Inr True)"

definition constraint_batch_size :: constraint where
  "constraint_batch_size op =
     (case ifm op of
        None \<Rightarrow> Inl AttributeError
      | Some t \<Rightarrow>
          (case shape t of
             [] \<Rightarrow> Inl IndexError
           | d # ds \<Rightarrow> Inr (d = Some 1)))"

definition constraint_matching_in_out_types :: constraint where
  "constraint_matching_in_out_types op =
     (case ifm op of
        None \<Rightarrow> Inl AttributeError
      | Some i \<Rightarrow>
          (case ofm op of
             None \<Rightarrow> Inl AttributeError
           | Some out \<Rightarrow> Inr (dtype i = dtype out)))"

definition constraint_matching_shapes :: constraint where
  "constraint_matching_shapes op =
     (case ifm op of
        None \<Rightarrow> Inl AttributeError
      | Some i \<Rightarrow>
          (case ofm op of
             None \<Rightarrow> Inl AttributeError
           | Some out \<Rightarrow> Inr (shape i = shape out)))"

definition constraint_matching_dimensionality :: constraint where
  "constraint_matching_dimensionality op =
     (case ofm op of
        None \<Rightarrow> Inl AttributeError
      | Some out \<Rightarrow>
          Inr (list_all (\<lambda>tens. \<not> length (shape tens) \<noteq> length (shape out))
                 (not_none (inputs op))))"

definition constraint_stridedslice_input_count :: constraint where
  "constraint_stridedslice_input_count op = Inr (length (inputs op) = 4)"

definition constraint_matching_inputs_types :: constraint where
  "constraint_matching_inputs_types op =
     (case ifm op of
        None \<Rightarrow> Inl AttributeError
      | Some i \<Rightarrow>
          (case ifm2 op of
             None \<Rightarrow> Inl AttributeError
           | Some i2 \<Rightarrow> Inr (dtype i = dtype i2)))"

definition constraint_matching_signed :: constraint where
  "constraint_matching_signed op =
     (case ifm op of
        None \<Rightarrow> Inl AttributeError
      | Some i \<Rightarrow>
          (case ofm op of
             None \<Rightarrow> Inl AttributeError
           | Some out \<Rightarrow> Inr (if is_signed (dtype i) then is_signed (dtype out) else True)))"

definition constraint_unsigned_valid :: constraint where
  "constraint_unsigned_valid op =
     (case ifm op of
        None \<Rightarrow> Inl AttributeError
      | Some i \<Rightarrow>
          (case ofm op of
             None \<Rightarrow> Inl AttributeError
           | Some out \<Rightarrow>
               Inr (if is_unsigned (dtype i)
                    then dtype i = dtype out \<or> dtype out = int32 else True)))"

definition constraint_inputs_int32 :: constraint where
  "constraint_inputs_int32 op =
     (case ifm op of
        None \<Rightarrow> Inl AttributeError
      | Some i \<Rightarrow>
          (case ifm2 op of
             None \<Rightarrow> Inl AttributeError
           | Some i2 \<Rightarrow> Inr (dtype i = int32 \<and> dtype i2 = int32)))"

definition constraint_output_int32 :: constraint where
  "constraint_output_int32 op =
     (case ofm op of
        None \<Rightarrow> Inl AttributeError
      | Some out \<Rightarrow> Inr (dtype out = int32))"

text \<open>\<open>(len(tens.shape) > 2) and (tens.shape[0] != 1)\<close> for the tensors of
  \<open>(op.ifm, op.ifm2)\<close> that are not \<open>None\<close>.\<close>

definition constraint_elemwise_batch_size :: constraint where
  "constraint_elemwise_batch_size op =
     Inr (list_all (\<lambda>tens. \<not> (2 < length (shape tens) \<and> hd (shape tens) \<noteq> Some 1))
            (not_none [ifm op, ifm2 op]))"

definition constraint_matching_either_shapes :: constraint where
  "constraint_matching_either_shapes op =
     (case ifm op of
        None \<Rightarrow> Inl AttributeError
      | Some i \<Rightarrow>
          (let ifm2_shape = (case ifm2 op of None \<Rightarrow> None | Some i2 \<Rightarrow> Some (shape i2))
           in case ofm op of
                None \<Rightarrow> Inl AttributeError
              | Some out \<Rightarrow> Inr (shape i = shape out \<or> ifm2_shape = Some (shape out))))"

text \<open>The slice \<open>xs[-size:]\<close>: the last \<open>size\<close> elements, and the whole list when
  \<open>size\<close> is 0 or at least the length.\<close>

definition last_elems :: "'a list \<Rightarrow> nat \<Rightarrow> 'a list" where
  "last_elems xs n = (if n = 0 then xs else drop (length xs - n) xs)"

text \<open>\<open>zip\<close> of three lists stops at the end of the shortest.\<close>

definition zip3 :: "'a list \<Rightarrow> 'b list \<Rightarrow> 'c list \<Rightarrow> ('a \<times> 'b \<times> 'c) list" where
  "zip3 xs ys zs = zip xs (zip ys zs)"

text \<open>The loop of \<open>constraint_broadcast_shapes\<close>, which leaves at the first invalid
  triple. \<open>max(i, i2)\<close> raises \<open>TypeError\<close> when a dimension is \<open>None\<close>.\<close>

fun broadcast_loop :: "(int option \<times> int option \<times> int option) list \<Rightarrow> error + bool" where
  "broadcast_loop [] = Inr True"
| "broadcast_loop ((Some i, Some i2, out) # rest) =
     (let mi = max i i2
      in if \<not> (i = i2 \<or> i = 1 \<or> i2 = 1) \<or> out \<noteq> Some mi then Inr False
         else broadcast_loop rest)"
| "broadcast_loop ((Some i, None, out) # rest) = Inl TypeError"
| "broadcast_loop ((None, i2, out) # rest) = Inl TypeError"

definition constraint_broadcast_shapes :: constraint where
  "constraint_broadcast_shapes op =
     (case ifm op of
        None \<Rightarrow> Inl AttributeError
      | Some i \<Rightarrow>
          (case ofm op of
             None \<Rightarrow> Inl AttributeError
           | Some out \<Rightarrow>
               (case ifm2 op of
                  None \<Rightarrow> Inr True
                | Some i2 \<Rightarrow>
                    (let size = min (length (shape i)) (length (shape i2))
                     in broadcast_loop
                          (zip3 (last_elems (shape i) size) (last_elems (shape i2) size)
                             (last_elems (shape out) size))))))"

subsection \<open>The class \<open>SupportedOperators\<close>\<close>

record SupportedOperators =
  generic_constraints :: "constraint list"
  specific_constraints :: "Op \<Rightarrow> constraint list"

definition generic_constraints_init :: "constraint list" where
  "generic_constraints_init =
     [constraint_tens_no_dynamic,
      constraint_tens_defined_shape,
      constraint_tens_output_scalar,
      constraint_tens_input_scalar,
      constraint_tens_shape_size,
      constraint_tens_dtype,
      constraint_tens_int32_ops,
      constraint_tens_dimension,
      constraint_tens_quant_none_check,
      constraint_tens_quant_scale,
      constraint_tens_quant_per_axis,
      constraint_faf]"

text \<open>The table that \<open>__init__\<close> fills, loop by loop: the list of an operator kind is the
  concatenation of what each loop appends for it. The constraints that read the kernel,
  the attributes or the values of tensors (through operation.py and numpy) are not
  modelled; \<open>ext\<close> gives them by name.\<close>

definition specific_constraints_init :: "(string \<Rightarrow> constraint) \<Rightarrow> Op \<Rightarrow> constraint list" where
  "specific_constraints_init ext k =
     (if k \<in> convolution_like_ops then
        [ext ''constraint_stride_type'', ext ''constraint_stride_range'',
         ext ''constraint_dilation_type'', ext ''constraint_dilation_range'',
         ext ''constraint_dilated_height_range'', ext ''constraint_dilated_product_range'',
         constraint_weights_type, constraint_weights_const, ext ''constraint_weights_limit'',
         constraint_bias_type, constraint_bias_40bit, constraint_batch_size]
      else [])
     @ (if k \<in> depthwise_convolution_ops then [ext ''constraint_depth_multiplier'']
        else [])
     @ (if k \<in> transpose_convolution_ops then
          [ext ''constraint_tconv_stride'', ext ''constraint_tconv_same'',
           ext ''constraint_tconv_valid'']
        else [])
     @ (if k \<in> pooling_ops then
          [constraint_batch_size, ext ''constraint_stride_type'', ext ''constraint_stride_range'']
        else [])
     @ (if k \<in> avg_pooling_ops then
          [constraint_matching_in_out_types, ext ''constraint_filter_type'',
           ext ''constraint_filter_range'', ext ''constraint_filter_height_range_valid_pad'',
           ext ''constraint_filter_product_range_valid_pad'']
        else [])
     @ (if k \<in> max_pooling_ops then
          [constraint_matching_in_out_types, ext ''constraint_filter_type'',
           ext ''constraint_filter_height_range'', ext ''constraint_filter_product_range'']
        else [])
     @ (if k \<in> relu_ops then [ext ''constraint_quant_scale_inf''] else [])
     @ (if k \<in> resizing_ops then [ext ''constraint_resize''] else [])
     @ (if k \<in> fc_vector_products then
          [constraint_weights_type, constraint_weights_const, constraint_bias_type,
           constraint_bias_40bit]
        else [])
     @ (if k \<in> {Concat, ConcatTFLite} then
          [ext ''constraint_axis_exists'', ext ''constraint_axis_valid'',
           constraint_matching_dimensionality, ext ''constraint_valid_dimensions'']
        else [])
     @ (if k \<in> elem_wise_main_ops then
          [constraint_elemwise_batch_size, constraint_matching_either_shapes]
        else [])
     @ (if k \<in> unary_elem_wise_main_ops then [constraint_matching_in_out_types] else [])
     @ (if k \<in> binary_elem_wise_min_max_ops then
          [constraint_matching_in_out_types, ext ''constraint_matching_quantization_parameters'',
           constraint_broadcast_shapes]
        else [])
     @ (if k \<in> binary_elem_wise_add_mul_sub then
          [constraint_matching_inputs_types, constraint_matching_signed,
           constraint_unsigned_valid, constraint_broadcast_shapes]
        else [])
     @ (if k \<in> binary_elem_wise_shift_ops then
          [constraint_inputs_int32, constraint_broadcast_shapes]
        else [])
     @ (if k = SHL then [constraint_output_int32] else [])
     @ (if k = CLZ then [constraint_output_int32] else [])
     @ (if k = Softmax then
          [constraint_matching_shapes, constraint_matching_in_out_types,
           ext ''constraint_beta_value_range'']
        else [])
     @ (if k = SplitV then [ext ''constraint_splitv_inferred''] else [])
     @ (if k = StridedSlice then
          [constraint_stridedslice_input_count, ext ''constraint_stridedslice_inputs_const'',
           ext ''constraint_stridedslice_stride_values'', ext ''constraint_ellipsis_mask'',
           ext ''constraint_axis_masks'', ext ''constraint_slice_ranges'']
        else [])
     @ (if k = LeakyRelu then [ext ''constraint_alpha_valid''] else [])"

definition SupportedOperators_init :: "(string \<Rightarrow> constraint) \<Rightarrow> SupportedOperators" where
  "SupportedOperators_init ext =
     \<lparr>generic_constraints = generic_constraints_init,
      specific_constraints = specific_constraints_init ext\<rparr>"

text \<open>The loop of \<open>is_operator_supported\<close>: the first constraint that is not valid makes
  the result \<open>False\<close>; an exception ends the loop.\<close>

fun check_constraints :: "constraint list \<Rightarrow> Operation \<Rightarrow> error + bool" where
  "check_constraints [] op = Inr True"
| "check_constraints (c # cs) op =
     (case c op of
        Inl e \<Rightarrow> Inl e
      | Inr valid \<Rightarrow> if \<not> valid then Inr False else check_constraints cs op)"

definition is_operator_supported :: "SupportedOperators \<Rightarrow> Operation \<Rightarrow> error + bool" where
  "is_operator_supported self op =
     (if type op \<notin> supported_operators then Inr False
      else check_constraints (generic_constraints self @ specific_constraints self (type op)) op)"

subsection \<open>The broadcasting rule of binary elementwise operators, as specified\<close>

text \<open>Dimension \<open>k\<close> of a shape counted from its end.\<close>

definition trailing_dim :: "int option list \<Rightarrow> nat \<Rightarrow> int option" where
  "trailing_dim shp k = rev shp ! k"

text \<open>The rule for one aligned dimension: the two input dimensions are equal or one of
  them is 1, and the OFM dimension is the maximum of the two.\<close>

definition broadcast_dims_ok :: "int option \<times> int option \<times> int option \<Rightarrow> bool" where
  "broadcast_dims_ok dims =
     (case dims of
        (Some i, Some i2, Some out) \<Rightarrow> (i = i2 \<or> i = 1 \<or> i2 = 1) \<and> out = max i i2
      | _ \<Rightarrow> False)"

text \<open>At least one input shape equals the OFM shape, and the rule holds along every
  aligned trailing dimension.\<close>

definition elementwise_shapes_ok ::
  "int option list \<Rightarrow> int option list \<Rightarrow> int option list \<Rightarrow> bool" where
  "elementwise_shapes_ok ifm_shape ifm2_shape ofm_shape =
     ((ifm_shape = ofm_shape \<or> ifm2_shape = ofm_shape)
      \<and> list_all
          (\<lambda>k. broadcast_dims_ok
                 (trailing_dim ifm_shape k, trailing_dim ifm2_shape k, trailing_dim ofm_shape k))
          [0 ..< min (length ifm_shape) (length ifm2_shape)])"

subsection \<open>What the quantization scale check establishes\<close>

text \<open>The tensor has quantization parameters, and their scale, when it is set, has no
  infinite element.\<close>

definition scale_not_inf :: "Tensor \<Rightarrow> bool" where
  "scale_not_inf t =
     (\<exists>q. quantization t = Some q \<and> (\<forall>s. scale_f32 q = Some s \<longrightarrow> \<not> list_ex isinf s))"

subsection \<open>Concrete operations\<close>

text \<open>A quantised tensor and an elementwise operation on such tensors, as the unit tests
  build them.\<close>

definition default_quant_params :: QuantizationParameters where
  "default_quant_params = \<lparr>scale_f32 = Some [Finite 1], zero_point = Some [0]\<rparr>"

definition plain_tensor :: "int list \<Rightarrow> DataType \<Rightarrow> Tensor" where
  "plain_tensor shp dt =
     \<lparr>shape = map Some shp, dtype = dt, values_present = False, quant_values = None,
      quantization = None, element_size_bytes = 0, purpose = TensorPurpose.Unknown,
      ops = [], consumer_list = [], address = 0, storage_size = 0, equivalence_id = 0\<rparr>"

definition quant_tensor :: "int list \<Rightarrow> DataType \<Rightarrow> Tensor" where
  "quant_tensor shp dt = (plain_tensor shp dt)\<lparr>quantization := Some default_quant_params\<rparr>"

definition create_elemwise_op :: "Op \<Rightarrow> int list \<Rightarrow> int list \<Rightarrow> int list \<Rightarrow> Operation" where
  "create_elemwise_op k ifm_shape ifm2_shape ofm_shape =
     \<lparr>type = k,
      inputs = [Some (quant_tensor ifm_shape uint8), Some (quant_tensor ifm2_shape uint8)],
      outputs = [Some (quant_tensor ofm_shape uint8)],
      ifm = Some (quant_tensor ifm_shape uint8),
      ifm2 = Some (quant_tensor ifm2_shape uint8),
      weights = None, bias = None,
      ofm = Some (quant_tensor ofm_shape uint8),
      attrs = (\<lambda>name. None), activation = None\<rparr>"

text \<open>A fully connected operation with constant 8 bit weights and a 64 bit bias that has
  no quantization; the scale of the OFM quantization is not set.\<close>

definition fc_bias :: Tensor where
  "fc_bias = plain_tensor [70000] int64"

definition fc_ofm :: Tensor where
  "fc_ofm = (plain_tensor [1, 4] uint8)
              \<lparr>quantization := Some \<lparr>scale_f32 = None, zero_point = Some [0]\<rparr>\<rparr>"

definition fc_weights :: Tensor where
  "fc_weights = (quant_tensor [8, 4] uint8)\<lparr>values_present := True\<rparr>"

definition fc_op :: Operation where
  "fc_op =
     \<lparr>type = FullyConnected,
      inputs = [Some (quant_tensor [1, 8] uint8), Some fc_weights, Some fc_bias],
      outputs = [Some fc_ofm],
      ifm = Some (quant_tensor [1, 8] uint8),
      ifm2 = None,
      weights = Some fc_weights, bias = Some fc_bias,
      ofm = Some fc_ofm,
      attrs = (\<lambda>name. None), activation = None\<rparr>"

text \<open>No constraint of \<open>ext\<close> is in the list of the operator kinds used below; this
  instance takes them to be valid.\<close>

definition no_ext :: "string \<Rightarrow> constraint" where
  "no_ext name op = Inr True"

section \<open>Pass packing (pass_packing.py)\<close>

subsection \<open>Results of functions that may raise or not return\<close>

text \<open>The traversal of the graph and the loop over the operations of a pass are bounded
  by fuel: \<open>OutOfFuel\<close> is the result of a run that needs more steps than the fuel it
  was given.\<close>

datatype 'a result = Ok 'a | Raise error | OutOfFuel

definition bind :: "'a result \<Rightarrow> ('a \<Rightarrow> 'b result) \<Rightarrow> 'b result" where
  "bind m f = (case m of Ok x \<Rightarrow> f x | Raise e \<Rightarrow> Raise e | OutOfFuel \<Rightarrow> OutOfFuel)"

subsection \<open>Flags, placements and block types\<close>

text \<open>\<open>NpuBlockType\<close> and \<open>PassPlacement\<close> belong to nn_graph.py, which is not part of the
  sources at hand; their members are those of the data model of the specification and
  those that pass_packing.py names.\<close>

datatype NpuBlockType =
    Default | ConvolutionMxN | ConvolutionDepthWise | Pooling | ElementWise | ReduceSum
  | VectorProduct

datatype PassPlacement = Unknown | Cpu | Npu | MemoryOnly | StartupInit

text \<open>A value of the flag enumeration \<open>PassFlags\<close> is a set of its members: \<open>|\<close> is
  union, \<open>&\<close> is intersection and \<open>PassFlags.Empty\<close> is the empty set.\<close>

datatype PassFlags =
    Pre | Main | Post | Mac | Dma | ElementWise | Npu | Cpu | StartupInit | MemoryOnly
  | PostFusingLimited

subsection \<open>The sets of operator types\<close>

text \<open>In pass_packing.py the type of an operation is a string. A set whose name is also
  the name of a set of supported_operators.py has a prime here.\<close>

definition npu_pre_ops' :: "string set" where
  "npu_pre_ops' = {''QuantizedResizeBilinear'', ''SplitSliceRead''}"

definition mac_main_ops' :: "string set" where
  "mac_main_ops' =
     {''Conv2DBiasAct'', ''Conv2D'', ''QuantizedConv2D'', ''Conv2DBackpropInputSwitched'',
      ''DepthwiseConv2dBiasAct'', ''DepthwiseConv2dNative'', ''QuantizedDepthwiseConv2D'',
      ''QuantizedMatMul'', ''MatMul'', ''FullyConnectedAct'',
      ''BlockLSTM'',
      ''QuantizedMaxPool'', ''QuantizedAvgPool'', ''AvgPool'', ''MaxPool'', ''AvgPoolAct'',
      ''MaxPoolAct''}"

definition binary_elem_wise_main_ops' :: "string set" where
  "binary_elem_wise_main_ops' =
     {''AddAct'', ''MulAct'', ''SubAct'', ''QuantizedAdd'', ''QuantizedSub'', ''QuantizedMul'',
      ''Mul'', ''Add'', ''Sub'', ''Minimum'', ''Maximum''}"

definition unary_elem_wise_main_ops' :: "string set" where
  "unary_elem_wise_main_ops' = {''LeakyRelu'', ''Abs''}"

definition elem_wise_main_ops' :: "string set" where
  "elem_wise_main_ops' = binary_elem_wise_main_ops' \<union> unary_elem_wise_main_ops'"

definition activation_ops' :: "string set" where
  "activation_ops' =
     {''QuantizedRelu'', ''QuantizedRelu1'', ''QuantizedRelu6'', ''Relu'', ''Relu6'',
      ''ReluN1To1''}"

definition npu_post_ops' :: "string set" where
  "npu_post_ops' =
     activation_ops' \<union>
     {''Mul'', ''Add'', ''QuantizedBiasAdd'', ''Requantize'', ''QuantizedBatchNorm'', ''BiasAdd'',
      ''FusedBatchNorm''}"

definition npu_post_fuse_limited_ops :: "string set" where
  "npu_post_fuse_limited_ops = {''ConcatSliceWrite'', ''Sigmoid'', ''Tanh''}"

definition elem_wise_ops :: "string set" where
  "elem_wise_ops = elem_wise_main_ops' \<union> activation_ops' \<union> {''Sigmoid'', ''Tanh''}"

definition quantization_ops :: "string set" where
  "quantization_ops = {''Dequantize'', ''QuantizeV2'', ''Max'', ''Min''}"

definition cpu_ops :: "string set" where
  "cpu_ops =
     {''Softmax'', ''QuantizedSoftmax'', ''LRN'', ''Shape'', ''QuantizedPad'', ''Pad'', ''AddN''}
     \<union> quantization_ops"

definition npu_dma_ops :: "string set" where
  "npu_dma_ops = {''DMA''}"

definition startup_init_ops :: "string set" where
  "startup_init_ops = {''Const'', ''VariableV2'', ''Placeholder'', ''SubgraphInput''}"

definition memory_only_ops' :: "string set" where
  "memory_only_ops' = {''Squeeze'', ''Reshape'', ''QuantizedReshape'', ''ExpandDims''}"

subsection \<open>The classification table\<close>

text \<open>A row is \<open>(ops_set, incompatible_pack_flags, flags_to_set, flags_to_clear)\<close>; the
  set of the last row is \<open>None\<close>.\<close>

type_synonym row = "string set option \<times> PassFlags set \<times> PassFlags set \<times> PassFlags set"

definition test_sequence :: "row list" where
  "test_sequence =
     [(Some npu_post_ops',
       {PassFlags.Cpu, PassFlags.MemoryOnly, PassFlags.Pre, PassFlags.Main},
       {PassFlags.Npu, PassFlags.Post},
       {}),
      (Some npu_post_fuse_limited_ops,
       {PassFlags.Cpu, PassFlags.MemoryOnly, PassFlags.Pre, PassFlags.Main},
       {PassFlags.Npu, PassFlags.PostFusingLimited},
       {}),
      (Some mac_main_ops',
       {PassFlags.Cpu, PassFlags.MemoryOnly, PassFlags.ElementWise, PassFlags.Pre,
        PassFlags.Main, PassFlags.PostFusingLimited},
       {PassFlags.Npu, PassFlags.Mac, PassFlags.Main},
       {}),
      (Some elem_wise_main_ops',
       {PassFlags.Cpu, PassFlags.MemoryOnly, PassFlags.Mac, PassFlags.Pre, PassFlags.Main,
        PassFlags.PostFusingLimited},
       {PassFlags.Npu, PassFlags.ElementWise, PassFlags.Main},
       {}),
      (Some npu_pre_ops',
       {PassFlags.Cpu, PassFlags.MemoryOnly},
       {PassFlags.Npu, PassFlags.Mac, PassFlags.Pre, PassFlags.ElementWise},
       {}),
      (Some npu_dma_ops,
       {PassFlags.Cpu, PassFlags.MemoryOnly},
       {PassFlags.Npu, PassFlags.Dma},
       {}),
      (Some startup_init_ops,
       {PassFlags.Npu, PassFlags.Cpu, PassFlags.MemoryOnly},
       {PassFlags.StartupInit, PassFlags.Main},
       {}),
      (Some memory_only_ops',
       {PassFlags.Npu, PassFlags.Cpu},
       {PassFlags.MemoryOnly, PassFlags.Main},
       {}),
      (Some cpu_ops,
       {PassFlags.Npu, PassFlags.MemoryOnly, PassFlags.Main},
       {PassFlags.Cpu, PassFlags.Main},
       {}),
      (None,
       {PassFlags.Npu, PassFlags.MemoryOnly, PassFlags.Main},
       {PassFlags.Cpu, PassFlags.Main},
       {})]"

subsection \<open>Operations, passes and the state of the packer\<close>

text \<open>An operation of the graph (class \<open>Operation\<close> of nn_graph.py, with a string as
  type). \<open>op_npu_block_type\<close> is the attribute \<open>attrs["npu_block_type"]\<close>, \<open>op_attrs\<close>
  are the other attributes. \<open>op_ofm\<close> is the last component of
  \<open>get_ifm_ifm2_weights_ofm()\<close>, a method that is not part of the sources at hand.\<close>

record GraphOperation =
  optype :: string
  opname :: string
  op_inputs :: "tens_ref list"
  op_outputs :: "tens_ref list"
  op_npu_block_type :: "NpuBlockType option"
  op_attrs :: "string \<Rightarrow> attr_value option"
  run_on_npu :: bool
  scheduled_pass :: "nat option"
  op_ofm :: "tens_ref option"

text \<open>The fields of a pass that \<open>build_pass\<close> sets. \<open>weight_tensor\<close> and \<open>scale_tensor\<close>
  are computed by methods of nn_graph.py that are not part of the sources at hand, and
  are left out.\<close>

record Pass =
  ps_name :: string
  ps_placement :: PassPlacement
  ps_is_element_wise :: bool
  ps_npu_block_type :: NpuBlockType
  ps_ops :: "op_ref list"
  ps_primary_op :: "op_ref option"
  ps_inputs :: "tens_ref list"
  ps_intermediates :: "tens_ref list"
  ps_outputs :: "tens_ref list"
  ps_ifm_tensor :: "tens_ref option"
  ps_ifm2_tensor :: "tens_ref option"
  ps_ofm_tensor :: "tens_ref option"

text \<open>The objects of the graph, and the variables of \<open>pack_into_passes\<close> that its nested
  functions share. New objects get the references \<open>next_op\<close> and \<open>next_tens\<close>.
  \<open>reverse_pass_list\<close> is kept in the order in which passes are appended, and
  \<open>scheduled_pass\<close> of an operation is the position of its pass in that list.\<close>

record PackState =
  op_store :: "op_ref \<Rightarrow> GraphOperation"
  tens_store :: "tens_ref \<Rightarrow> Tensor"
  next_op :: op_ref
  next_tens :: tens_ref
  visit_op_refcount :: "op_ref \<Rightarrow> int"
  visit_tensor_refcount :: "tens_ref \<Rightarrow> int"
  startup_list :: "op_ref list"
  reverse_pass_list :: "Pass list"

text \<open>The local variables of \<open>build_pass\<close> during its loop.\<close>

record BuildState =
  reverse_ops_list :: "op_ref list"
  curr_flags :: "PassFlags set"
  npu_block_type :: NpuBlockType
  reverse_intermediates :: "tens_ref list"
  input_set :: "tens_ref set"
  ifm_tensor :: "tens_ref option"
  primary_op' :: "op_ref option"
  to_process :: "(op_ref \<times> tens_ref option) list"

subsection \<open>The loop of \<open>build_pass\<close>\<close>

text \<open>The loop over \<open>test_sequence\<close>: the first row whose set contains the type of the
  operation (or is \<open>None\<close>), whose incompatible flags are not set, and which does not
  need the NPU for an operation that cannot run on it.\<close>

fun find_row :: "row list \<Rightarrow> GraphOperation \<Rightarrow> PassFlags set \<Rightarrow> row option" where
  "find_row [] curr_op flags = None"
| "find_row ((operation_set, incompatible_pack_flags, flags_to_set, flags_to_clear) # rows)
      curr_op flags =
     (if (case operation_set of None \<Rightarrow> True | Some s \<Rightarrow> optype curr_op \<in> s)
         \<and> flags \<inter> incompatible_pack_flags = {}
         \<and> \<not> (PassFlags.Npu \<in> flags_to_set \<and> \<not> run_on_npu curr_op)
      then Some (operation_set, incompatible_pack_flags, flags_to_set, flags_to_clear)
      else find_row rows curr_op flags)"

text \<open>Whether the producer of \<open>inp\<close> can be packed with \<open>curr_op\<close>, and that producer.\<close>

definition can_pack :: "PackState \<Rightarrow> op_ref \<Rightarrow> tens_ref \<Rightarrow> op_ref option" where
  "can_pack S curr_op inp =
     (case ops (tens_store S inp) of
        [nxt_op] \<Rightarrow>
          (if list_all
                (\<lambda>outp. let consumers = consumer_list (tens_store S outp)
                         in \<not> (1 < length consumers
                                \<or> (length consumers = 1 \<and> hd consumers \<noteq> Some curr_op)))
                (op_outputs (op_store S nxt_op))
           then Some nxt_op else None)
      | _ \<Rightarrow> None)"

text \<open>The loop over the inputs of a packed operation.\<close>

fun pack_inputs :: "PackState \<Rightarrow> op_ref \<Rightarrow> tens_ref list \<Rightarrow> BuildState \<Rightarrow> BuildState" where
  "pack_inputs S curr_op [] b = b"
| "pack_inputs S curr_op (inp # inps) b =
     (case can_pack S curr_op inp of
        Some nxt_op \<Rightarrow>
          pack_inputs S curr_op inps (b\<lparr>to_process := to_process b @ [(nxt_op, Some inp)]\<rparr>)
      | None \<Rightarrow> pack_inputs S curr_op inps (b\<lparr>input_set := insert inp (input_set b)\<rparr>))"

text \<open>The body of the loop over \<open>test_sequence\<close> for the row that is taken.\<close>

definition pack_op ::
  "PackState \<Rightarrow> BuildState \<Rightarrow> op_ref \<Rightarrow> tens_ref option \<Rightarrow> row \<Rightarrow> BuildState result" where
  "pack_op S b curr_op t r =
     (case r of (operation_set, incompatible_pack_flags, flags_to_set, flags_to_clear) \<Rightarrow>
      let cop = op_store S curr_op;
          b1 = b\<lparr>reverse_ops_list := reverse_ops_list b @ [curr_op]\<rparr>;
          new_block_type =
            (case op_npu_block_type cop of None \<Rightarrow> NpuBlockType.Default | Some bt \<Rightarrow> bt)
      in bind
           (if new_block_type \<noteq> NpuBlockType.Default then
              (if npu_block_type b1 \<noteq> NpuBlockType.Default
               then Raise (AssertionError ''npu_block_type == NpuBlockType.Default'')
               else if primary_op' b1 \<noteq> None
               then Raise (AssertionError ''primary_op is None'')
               else Ok (b1\<lparr>npu_block_type := new_block_type, primary_op' := Some curr_op\<rparr>))
            else Ok b1)
           (\<lambda>b2.
              let b3 = b2\<lparr>curr_flags := (curr_flags b2 - flags_to_clear) \<union> flags_to_set\<rparr>
              in bind
                   (if PassFlags.Npu \<in> flags_to_set
                       \<and> flags_to_set \<inter> {PassFlags.Mac, PassFlags.ElementWise, PassFlags.Post,
                                           PassFlags.PostFusingLimited} \<noteq> {}
                    then
                      (if \<not> 1 \<le> length (op_inputs cop)
                       then Raise (AssertionError ''len(curr_op.inputs) >= 1'')
                       else if optype cop = ''BlockLSTM'' \<and> \<not> 3 < length (op_inputs cop)
                       then Raise IndexError
                       else
                         (let ifm = (if optype cop = ''BlockLSTM'' then op_inputs cop ! 3
                                     else op_inputs cop ! 0)
                          in if purpose (tens_store S ifm) \<noteq> TensorPurpose.FeatureMap
                             then Raise (AssertionError
                                           ''ifm_tensor.purpose == TensorPurpose.FeatureMap'')
                             else Ok (b3\<lparr>ifm_tensor := Some ifm\<rparr>)))
                    else Ok b3)
                   (\<lambda>b4.
                      let b5 = (if PassFlags.Dma \<in> flags_to_set
                                then (case t of
                                        None \<Rightarrow> b4
                                      | Some tn \<Rightarrow>
                                          b4\<lparr>reverse_intermediates :=
                                                reverse_intermediates b4 @ [tn]\<rparr>)
                                else b4)
                      in Ok (pack_inputs S curr_op (op_inputs cop) b5))))"

text \<open>The \<open>while\<close> loop over the queue \<open>to_process\<close>. The graph is only read.\<close>

fun pack_loop :: "nat \<Rightarrow> PackState \<Rightarrow> BuildState \<Rightarrow> BuildState result" where
  "pack_loop fuel S b =
     (case to_process b of
        [] \<Rightarrow> Ok b
      | (curr_op, t) # rest \<Rightarrow>
          (case fuel of
             0 \<Rightarrow> OutOfFuel
           | Suc n \<Rightarrow>
               (let b1 = b\<lparr>to_process := rest\<rparr>
                in if curr_op \<in> set (reverse_ops_list b1) then pack_loop n S b1
                   else
                     (case find_row test_sequence (op_store S curr_op) (curr_flags b1) of
                        Some r \<Rightarrow>
                          (case pack_op S b1 curr_op t r of
                             Ok b2 \<Rightarrow> pack_loop n S b2
                           | Raise e \<Rightarrow> Raise e
                           | OutOfFuel \<Rightarrow> OutOfFuel)
                      | None \<Rightarrow>
                          (case t of
                             None \<Rightarrow> Raise (AssertionError ''tens is not None'')
                           | Some tn \<Rightarrow>
                               pack_loop n S (b1\<lparr>input_set := insert tn (input_set b1)\<rparr>))))))"

declare pack_loop.simps [simp del]

definition BuildState_init :: "op_ref list \<Rightarrow> BuildState" where
  "BuildState_init start_ops_to_process =
     \<lparr>reverse_ops_list = [], curr_flags = {}, npu_block_type = NpuBlockType.Default,
      reverse_intermediates = [], input_set = {}, ifm_tensor = None, primary_op' = None,
      to_process = map (\<lambda>start_op. (start_op, None)) start_ops_to_process\<rparr>"

subsection \<open>The end of \<open>build_pass\<close>\<close>

text \<open>The four assignments of the placement, each after its assertion.\<close>

fun place :: "PassFlags set \<Rightarrow> (PassFlags \<times> PassPlacement) list \<Rightarrow> PassPlacement
                \<Rightarrow> PassPlacement result" where
  "place flags [] placement = Ok placement"
| "place flags ((flag, target) # rest) placement =
     (if flag \<in> flags then
        (if placement \<noteq> PassPlacement.Unknown
         then Raise (AssertionError ''placement == PassPlacement.Unknown'')
         else place flags rest target)
      else place flags rest placement)"

definition assign_placement :: "PassFlags set \<Rightarrow> PassPlacement result" where
  "assign_placement flags =
     bind (place flags
             [(PassFlags.Npu, PassPlacement.Npu), (PassFlags.Cpu, PassPlacement.Cpu),
              (PassFlags.MemoryOnly, PassPlacement.MemoryOnly),
              (PassFlags.StartupInit, PassPlacement.StartupInit)]
             PassPlacement.Unknown)
       (\<lambda>placement.
          if placement = PassPlacement.Unknown
          then Raise (AssertionError ''placement != PassPlacement.Unknown'')
          else Ok placement)"

text \<open>A new operation, as \<open>Operation(type, name)\<close> makes it.\<close>

definition Operation_init :: "string \<Rightarrow> string \<Rightarrow> GraphOperation" where
  "Operation_init op_type' name =
     \<lparr>optype = op_type', opname = name, op_inputs = [], op_outputs = [],
      op_npu_block_type = None, op_attrs = (\<lambda>key. None), run_on_npu = True,
      scheduled_pass = None, op_ofm = None\<rparr>"

text \<open>\<open>Tensor.clone\<close>: the clone has no producers and no consumers, and address 0.\<close>

definition clone :: "Tensor \<Rightarrow> Tensor" where
  "clone self = self\<lparr>ops := [], consumer_list := [], address := 0, element_size_bytes := 0\<rparr>"

text \<open>\<open>create_primary_op\<close> returns the new state of the graph, the list \<open>ops_list\<close> (the
  Python function inserts into it) and the primary operation, if one was made.\<close>

definition create_primary_op ::
  "PackState \<Rightarrow> op_ref list \<Rightarrow> (PackState \<times> op_ref list \<times> op_ref option) result" where
  "create_primary_op S ops_list =
     (if list_ex (\<lambda>op. optype (op_store S op)
                          \<in> npu_pre_ops' \<union> npu_post_ops' \<union> npu_post_fuse_limited_ops) ops_list
      then
        (case ops_list of
           [] \<Rightarrow> Raise IndexError
         | op # _ \<Rightarrow>
             (case op_inputs (op_store S op) of
                [] \<Rightarrow> Raise IndexError
              | inp # _ \<Rightarrow>
                  (let avgpool_op = next_op S;
                       avgpool_out = next_tens S;
                       S1 = S\<lparr>next_op := Suc (next_op S), next_tens := Suc (next_tens S)\<rparr>;
                       T1 = (tens_store S1)
                              (inp := (tens_store S1 inp)
                                 \<lparr>consumer_list :=
                                    consumer_list (tens_store S1 inp) @ [Some avgpool_op]\<rparr>);
                       T2 = T1(avgpool_out :=
                                 (clone (T1 inp))\<lparr>consumer_list := [Some op],
                                                   ops := [avgpool_op]\<rparr>);
                       O1 = (op_store S1)
                              (avgpool_op :=
                                 (Operation_init ''AvgPool'' (opname (op_store S1 op) @ ''_avgpool''))
                                   \<lparr>op_inputs := [inp],
                                    op_outputs := [avgpool_out],
                                    op_ofm := Some avgpool_out,
                                    op_npu_block_type := Some NpuBlockType.Pooling,
                                    op_attrs :=
                                      [''padding'' \<mapsto> BytesAttr ''VALID'',
                                       ''stride_w'' \<mapsto> IntAttr 1,
                                       ''stride_h'' \<mapsto> IntAttr 1,
                                       ''filter_width'' \<mapsto> IntAttr 1,
                                       ''filter_height'' \<mapsto> IntAttr 1,
                                       ''strides'' \<mapsto> ListAttr [1, 1, 1, 1],
                                       ''ksize'' \<mapsto> ListAttr [1, 1, 1, 1],
                                       ''skirt'' \<mapsto> ListAttr [0, 0, 0, 0],
                                       ''explicit_padding'' \<mapsto> ListAttr [0, 0, 0, 0]]\<rparr>);
                       O2 = O1(op := (O1 op)\<lparr>op_inputs := (op_inputs (O1 op))[0 := avgpool_out]\<rparr>)
                   in Ok (S1\<lparr>op_store := O2, tens_store := T2\<rparr>,
                          avgpool_op # ops_list, Some avgpool_op))))
      else Ok (S, ops_list, None))"

text \<open>The loop that fills \<open>ordered_input_list\<close> and \<open>input_refcounts\<close>, over the inputs
  of the operations of the pass in order.\<close>

fun count_inputs ::
  "tens_ref set \<Rightarrow> tens_ref list \<Rightarrow> tens_ref list \<times> (tens_ref \<Rightarrow> nat)
     \<Rightarrow> tens_ref list \<times> (tens_ref \<Rightarrow> nat)" where
  "count_inputs inset [] acc = acc"
| "count_inputs inset (inp # inps) (ordered_input_list, input_refcounts) =
     (if inp \<in> inset then
        count_inputs inset inps
          (if input_refcounts inp = 0 then ordered_input_list @ [inp] else ordered_input_list,
           input_refcounts(inp := Suc (input_refcounts inp)))
      else count_inputs inset inps (ordered_input_list, input_refcounts))"

text \<open>What \<open>build_pass\<close> does with a primary operation that \<open>create_primary_op\<close> has
  made: one more visit of its first input is counted, its block type becomes the block
  type of the pass, and its inputs become inputs of the pass. The result is the new
  state, the block type and the set of inputs of the pass.\<close>

definition adopt_primary_op ::
  "PackState \<Rightarrow> BuildState \<Rightarrow> op_ref option \<Rightarrow> (PackState \<times> NpuBlockType \<times> tens_ref set) result"
  where
  "adopt_primary_op S b made =
     (case made of
        None \<Rightarrow> Ok (S, npu_block_type b, input_set b)
      | Some p \<Rightarrow>
          (case op_inputs (op_store S p) of
             [] \<Rightarrow> Raise IndexError
           | inp # _ \<Rightarrow>
               (case op_npu_block_type (op_store S p) of
                  None \<Rightarrow> Raise KeyError
                | Some bt \<Rightarrow>
                    Ok (S\<lparr>visit_tensor_refcount :=
                            (visit_tensor_refcount S)(inp := visit_tensor_refcount S inp + 1)\<rparr>,
                        bt, input_set b \<union> set (op_inputs (op_store S p))))))"

text \<open>The pass object, with \<open>ifm_tensor\<close> and \<open>ifm2_tensor\<close> taken from the inputs of the
  pass when the primary operation is a binary elementwise operation.\<close>

definition make_pass ::
  "PackState \<Rightarrow> BuildState \<Rightarrow> PassPlacement \<Rightarrow> bool \<Rightarrow> NpuBlockType \<Rightarrow> op_ref list
     \<Rightarrow> op_ref option \<Rightarrow> tens_ref list \<Rightarrow> tens_ref option \<Rightarrow> Pass result" where
  "make_pass S b placement is_element_wise block_type ops_list primary ordered_input_list
      ofm_tensor =
     (case ops_list of
        [] \<Rightarrow> Raise IndexError
      | first_op # _ \<Rightarrow>
          (let non_dma_ops = filter (\<lambda>op. optype (op_store S op) \<noteq> ''DMA'') ops_list;
               name = (case non_dma_ops of
                         [] \<Rightarrow> opname (op_store S first_op)
                       | op # _ \<Rightarrow> opname (op_store S op));
               ps = \<lparr>ps_name = name,
                     ps_placement = placement,
                     ps_is_element_wise = is_element_wise,
                     ps_npu_block_type = block_type,
                     ps_ops = ops_list,
                     ps_primary_op = primary,
                     ps_inputs = ordered_input_list,
                     ps_intermediates = rev (reverse_intermediates b),
                     ps_outputs = op_outputs (op_store S (last ops_list)),
                     ps_ifm_tensor = ifm_tensor b,
                     ps_ifm2_tensor = None,
                     ps_ofm_tensor = ofm_tensor\<rparr>
           in bind
                (if (case primary of
                       None \<Rightarrow> False
                     | Some p \<Rightarrow> optype (op_store S p) \<in> binary_elem_wise_main_ops')
                 then
                   (case ordered_input_list of
                      [] \<Rightarrow> Raise IndexError
                    | [inp] \<Rightarrow> Ok (ps\<lparr>ps_ifm_tensor := Some inp, ps_ifm2_tensor := Some inp\<rparr>)
                    | inp # inp2 # _ \<Rightarrow>
                        Ok (ps\<lparr>ps_ifm_tensor := Some inp, ps_ifm2_tensor := Some inp2\<rparr>))
                 else Ok ps)
                (\<lambda>ps1.
                   if \<not> (ps_placement ps1 \<noteq> PassPlacement.Npu \<or> ps_ofm_tensor ps1 \<noteq> None)
                   then Raise (AssertionError
                     ''ps.placement != PassPlacement.Npu or ps.ofm_tensor is not None'')
                   else Ok ps1)))"

text \<open>Everything \<open>build_pass\<close> does after its loop and before it visits the inputs of
  the pass. The result is the new state and the tensors to visit, in order: each input
  of the pass as many times as the operations of the pass read it.\<close>

definition finish_pass ::
  "PackState \<Rightarrow> BuildState \<Rightarrow> tens_ref option \<Rightarrow> (PackState \<times> tens_ref list) result" where
  "finish_pass S b ofm_tensor =
     (let flags = (if PassFlags.Npu \<in> curr_flags b
                      \<and> curr_flags b \<inter> {PassFlags.ElementWise, PassFlags.Mac} = {}
                   then insert PassFlags.ElementWise (curr_flags b) else curr_flags b);
          is_element_wise =
            list_all (\<lambda>op. \<not> (optype (op_store S op) \<notin> elem_wise_ops
                                \<and> optype (op_store S op) \<notin> npu_dma_ops))
              (reverse_ops_list b)
      in bind (assign_placement flags)
         (\<lambda>placement.
            bind (if primary_op' b = None then create_primary_op S (rev (reverse_ops_list b))
                  else Ok (S, rev (reverse_ops_list b), primary_op' b))
              (\<lambda>(S1, ops_list, primary).
                 bind (adopt_primary_op S1 b (if primary_op' b = None then primary else None))
                   (\<lambda>(S2, block_type, inset).
                      let counted = count_inputs inset
                                      (concat (map (\<lambda>op. op_inputs (op_store S2 op)) ops_list))
                                      ([], \<lambda>inp. 0);
                          ordered_input_list = fst counted;
                          input_refcounts = snd counted
                      in bind (make_pass S2 b placement is_element_wise block_type ops_list
                                 primary ordered_input_list ofm_tensor)
                           (\<lambda>ps.
                              Ok (S2\<lparr>op_store :=
                                       (\<lambda>op. if op \<in> set ops_list
                                             then (op_store S2 op)
                                                    \<lparr>scheduled_pass :=
                                                       Some (length (reverse_pass_list S2))\<rparr>
                                             else op_store S2 op),
                                     reverse_pass_list := reverse_pass_list S2 @ [ps]\<rparr>,
                                  concat (map (\<lambda>inp. replicate (input_refcounts inp) inp)
                                            ordered_input_list)))))))"

text \<open>\<open>build_pass\<close> up to the visits of the inputs of the pass.\<close>

definition build_pass_body ::
  "nat \<Rightarrow> PackState \<Rightarrow> op_ref list \<Rightarrow> tens_ref option \<Rightarrow> (PackState \<times> tens_ref list) result"
  where
  "build_pass_body fuel S start_ops_to_process ofm_tensor =
     bind (pack_loop fuel S (BuildState_init start_ops_to_process))
       (\<lambda>b. finish_pass S b ofm_tensor)"

subsection \<open>The traversal\<close>

text \<open>The first statements of \<open>visit_tensor\<close>: the reference count of the tensor is
  incremented and checked; the tensor is ready when every consumer has visited it.\<close>

definition count_tensor_visit :: "PackState \<Rightarrow> tens_ref \<Rightarrow> PackState" where
  "count_tensor_visit S t =
     S\<lparr>visit_tensor_refcount := (visit_tensor_refcount S)(t := visit_tensor_refcount S t + 1)\<rparr>"

definition tensor_ready :: "PackState \<Rightarrow> tens_ref \<Rightarrow> bool result" where
  "tensor_ready S t =
     (if \<not> visit_tensor_refcount S t \<le> int (length (consumer_list (tens_store S t)))
      then Raise (AssertionError ''visit_tensor_refcount[tens] <= len(tens.consumers())'')
      else Ok (visit_tensor_refcount S t = int (length (consumer_list (tens_store S t)))))"

text \<open>The first statements of \<open>visit_op\<close>: on the first visit the outputs that nobody
  consumes are counted as visits; the operation is ready when all outputs are visited.\<close>

definition count_op_visit :: "PackState \<Rightarrow> op_ref \<Rightarrow> PackState" where
  "count_op_visit S op =
     (let c = visit_op_refcount S op + 1;
          c' = (if c = 1
                then c + int (length (filter (\<lambda>t. length (consumer_list (tens_store S t)) = 0)
                                        (op_outputs (op_store S op))))
                else c)
      in S\<lparr>visit_op_refcount := (visit_op_refcount S)(op := c')\<rparr>)"

definition op_ready :: "PackState \<Rightarrow> op_ref \<Rightarrow> bool result" where
  "op_ready S op =
     (if \<not> visit_op_refcount S op \<le> int (length (op_outputs (op_store S op)))
      then Raise (AssertionError ''visit_op_refcount[op] <= len(op.outputs)'')
      else Ok (visit_op_refcount S op = int (length (op_outputs (op_store S op)))))"

text \<open>The OFM that \<open>visit_op\<close> passes to \<open>build_pass\<close>; an operation that is ready has
  an output.\<close>

definition ofm_tensor_of :: "PackState \<Rightarrow> op_ref \<Rightarrow> tens_ref option" where
  "ofm_tensor_of S op =
     (case op_ofm (op_store S op) of
        None \<Rightarrow> Some (hd (op_outputs (op_store S op)))
      | Some t \<Rightarrow> Some t)"

text \<open>\<open>visit_tensor\<close>, \<open>visit_op\<close> and \<open>build_pass\<close> call each other; \<open>visit_ops\<close> is the
  loop of \<open>visit_tensor\<close> over the producers of a tensor and \<open>visit_tensors\<close> the loop of
  \<open>build_pass\<close> over the inputs of the pass. Every call of \<open>visit_tensor\<close> and of
  \<open>visit_op\<close> takes one unit of fuel.\<close>

function (sequential) visit_tensor :: "nat \<Rightarrow> tens_ref \<Rightarrow> PackState \<Rightarrow> PackState result"
  and visit_ops :: "nat \<Rightarrow> op_ref list \<Rightarrow> PackState \<Rightarrow> PackState result"
  and visit_op :: "nat \<Rightarrow> op_ref \<Rightarrow> PackState \<Rightarrow> PackState result"
  and build_pass :: "nat \<Rightarrow> op_ref list \<Rightarrow> tens_ref option \<Rightarrow> PackState \<Rightarrow> PackState result"
  and visit_tensors :: "nat \<Rightarrow> tens_ref list \<Rightarrow> PackState \<Rightarrow> PackState result"
  where
  "visit_tensor 0 t S = OutOfFuel"
| "visit_tensor (Suc n) t S =
     (case tensor_ready (count_tensor_visit S t) t of
        Ok ready \<Rightarrow>
          if ready
          then visit_ops n (rev (ops (tens_store (count_tensor_visit S t) t)))
                 (count_tensor_visit S t)
          else Ok (count_tensor_visit S t)
      | Raise e \<Rightarrow> Raise e
      | OutOfFuel \<Rightarrow> OutOfFuel)"
| "visit_ops n [] S = Ok S"
| "visit_ops n (op # rest) S =
     (case visit_op n op S of
        Ok S1 \<Rightarrow> visit_ops n rest S1
      | Raise e \<Rightarrow> Raise e
      | OutOfFuel \<Rightarrow> OutOfFuel)"
| "visit_op 0 op S = OutOfFuel"
| "visit_op (Suc n) op S =
     (case op_ready (count_op_visit S op) op of
        Ok ready \<Rightarrow>
          if ready then
            (if optype (op_store (count_op_visit S op) op) \<in> startup_init_ops
             then Ok ((count_op_visit S op)
                        \<lparr>startup_list := startup_list (count_op_visit S op) @ [op]\<rparr>)
             else build_pass n [op] (ofm_tensor_of (count_op_visit S op) op)
                    (count_op_visit S op))
          else Ok (count_op_visit S op)
      | Raise e \<Rightarrow> Raise e
      | OutOfFuel \<Rightarrow> OutOfFuel)"
| "build_pass n start_ops_to_process ofm_tensor S =
     (case build_pass_body n S start_ops_to_process ofm_tensor of
        Ok (S1, to_visit) \<Rightarrow> visit_tensors n to_visit S1
      | Raise e \<Rightarrow> Raise e
      | OutOfFuel \<Rightarrow> OutOfFuel)"
| "visit_tensors n [] S = Ok S"
| "visit_tensors n (t # rest) S =
     (case visit_tensor n t S of
        Ok S1 \<Rightarrow> visit_tensors n rest S1
      | Raise e \<Rightarrow> Raise e
      | OutOfFuel \<Rightarrow> OutOfFuel)"
  by pat_completeness auto

termination
  by (relation "measures
        [\<lambda>x. case x of
                Inl (Inl (n, t, S)) \<Rightarrow> n
              | Inl (Inr (n, l, S)) \<Rightarrow> n
              | Inr (Inl (n, op, S)) \<Rightarrow> n
              | Inr (Inr (Inl (n, l, t, S))) \<Rightarrow> n
              | Inr (Inr (Inr (n, l, S))) \<Rightarrow> n,
         \<lambda>x. case x of
                Inl (Inl (n, t, S)) \<Rightarrow> 0
              | Inl (Inr (n, l, S)) \<Rightarrow> 1
              | Inr (Inl (n, op, S)) \<Rightarrow> 0
              | Inr (Inr (Inl (n, l, t, S))) \<Rightarrow> 2
              | Inr (Inr (Inr (n, l, S))) \<Rightarrow> 1,
         \<lambda>x. case x of
                Inl (Inl (n, t, S)) \<Rightarrow> 0
              | Inl (Inr (n, l, S)) \<Rightarrow> length l
              | Inr (Inl (n, op, S)) \<Rightarrow> 0
              | Inr (Inr (Inl (n, l, t, S))) \<Rightarrow> 0
              | Inr (Inr (Inr (n, l, S))) \<Rightarrow> length l]")
    simp_all

text \<open>The body of the loop of \<open>pack_into_passes\<close> over the subgraphs, for a subgraph with
  the given output tensors: the result is the new state and \<open>sg.passes\<close>. The name and
  the outputs of the pass of the startup operations are set at the end.
  \<open>sg.build_pass_links()\<close> belongs to nn_graph.py and is not modelled.\<close>

definition pack_subgraph :: "nat \<Rightarrow> PackState \<Rightarrow> tens_ref list \<Rightarrow> (PackState \<times> Pass list) result"
  where
  "pack_subgraph fuel S output_tensors =
     (let S0 = S\<lparr>reverse_pass_list := [], visit_op_refcount := (\<lambda>op. 0),
                  visit_tensor_refcount := (\<lambda>t. 0), startup_list := []\<rparr>
      in bind (visit_tensors fuel output_tensors S0)
         (\<lambda>S1.
            bind (if startup_list S1 \<noteq> []
                  then bind (build_pass fuel (startup_list S1) None S1)
                         (\<lambda>S2.
                            if list_ex (\<lambda>op. op_outputs (op_store S2 op) = []) (startup_list S1)
                            then Raise IndexError
                            else
                              Ok (S2\<lparr>reverse_pass_list :=
                                       (reverse_pass_list S2)
                                         [length (reverse_pass_list S1) :=
                                            (reverse_pass_list S2 ! length (reverse_pass_list S1))
                                              \<lparr>ps_outputs :=
                                                  map (\<lambda>op. hd (op_outputs (op_store S2 op)))
                                                    (startup_list S1),
                                               ps_name := ''startup_weight_initialisation''\<rparr>]\<rparr>))
                  else Ok S1)
              (\<lambda>S3. Ok (S3, rev (reverse_pass_list S3)))))"

text \<open>\<open>pack_into_passes\<close> for a network whose subgraphs have the given output tensors:
  the result is the final state of the graph and the passes of every subgraph.\<close>

fun pack_into_passes ::
  "nat \<Rightarrow> PackState \<Rightarrow> tens_ref list list \<Rightarrow> (PackState \<times> Pass list list) result" where
  "pack_into_passes fuel S [] = Ok (S, [])"
| "pack_into_passes fuel S (output_tensors # subgraphs) =
     (case pack_subgraph fuel S output_tensors of
        Ok (S1, passes) \<Rightarrow>
          (case pack_into_passes fuel S1 subgraphs of
             Ok (S2, others) \<Rightarrow> Ok (S2, passes # others)
           | Raise e \<Rightarrow> Raise e
           | OutOfFuel \<Rightarrow> OutOfFuel)
      | Raise e \<Rightarrow> Raise e
      | OutOfFuel \<Rightarrow> OutOfFuel)"

section \<open>Properties of the version query\<close>

lemma version_word_major:
  fixes major minor :: int
  shows "drop_bit 16 (push_bit 16 major OR (minor AND 0xFFFF)) = major"
proof -
  have "(0xFFFF::int) = mask 16" by (simp add: mask_eq_exp_minus_1)
  then have "minor AND 0xFFFF = take_bit 16 minor" by (simp add: take_bit_eq_mask)
  then show ?thesis by (simp add: drop_bit_take_bit drop_bit_push_bit)
qed

lemma version_word_minor:
  fixes major minor :: int
  assumes "0 \<le> minor" "minor < 2 ^ 16"
  shows "0xFFFF AND (push_bit 16 major OR (minor AND 0xFFFF)) = minor"
proof -
  have m: "(0xFFFF::int) = mask 16" by (simp add: mask_eq_exp_minus_1)
  have "0xFFFF AND (push_bit 16 major OR (minor AND 0xFFFF))
          = take_bit 16 (push_bit 16 major OR take_bit 16 minor)"
    unfolding m by (simp add: take_bit_eq_mask and.commute)
  also have "\<dots> = take_bit 16 minor" by (simp add: take_bit_push_bit)
  also have "\<dots> = minor" using assms by (simp add: take_bit_int_eq_self)
  finally show ?thesis .
qed

text \<open>Claim C10. \<open>npu_get_API_version\<close> returns \<open>(major << 16) | (minor & 0xFFFF)\<close>, a
  value that fits in 32 bits; shifting it right by 16 gives the major version and
  masking it with \<open>0xFFFF\<close> gives the minor version, as the unit test computes them.\<close>

theorem npu_get_API_version_round_trip:
  "npu_get_API_version = (push_bit 16 API_version_major) OR (API_version_minor AND 0xFFFF)
   \<and> 0 \<le> npu_get_API_version \<and> npu_get_API_version < 2 ^ 32
   \<and> drop_bit 16 npu_get_API_version = API_version_major
   \<and> 0xFFFF AND npu_get_API_version = API_version_minor"
proof -
  have minor: "0 \<le> API_version_minor" "API_version_minor < 2 ^ 16"
    by (simp_all add: API_version_minor_def)
  have "drop_bit 16 npu_get_API_version = API_version_major"
    unfolding npu_get_API_version_def by (rule version_word_major)
  moreover have "0xFFFF AND npu_get_API_version = API_version_minor"
    unfolding npu_get_API_version_def by (rule version_word_minor [OF minor])
  moreover have "npu_get_API_version = 65536"
    by (simp add: npu_get_API_version_def API_version_major_def API_version_minor_def)
  ultimately show ?thesis by (simp add: npu_get_API_version_def)
qed

section \<open>Properties of the lookup table allocation\<close>

subsection \<open>Python ranges\<close>

lemma le_div_iff_mult_le:
  fixes k m step :: int
  assumes "0 < step"
  shows "k \<le> m div step \<longleftrightarrow> k * step \<le> m"
proof -
  have "(m - k * step) div step = m div step - k"
    using assms by (metis diff_conv_add_uminus div_mult_self1 less_irrefl mult.commute mult_minus_left add.commute)
  then have "0 \<le> m div step - k \<longleftrightarrow> 0 \<le> m - k * step"
    using pos_imp_zdiv_nonneg_iff [OF assms, of "m - k * step"] by simp
  then show ?thesis by simp
qed

lemma py_range_pos_set:
  assumes "0 < step"
  shows "set (py_range start stop step) = {a. start \<le> a \<and> a < stop \<and> step dvd (a - start)}"
proof -
  let ?n = "(stop - start + step - 1) div step"
  have bound: "int k < ?n \<longleftrightarrow> start + int k * step < stop" for k
  proof -
    have "?n = (stop - start - 1) div step + 1"
      using assms by (metis add.commute add_diff_eq diff_add_eq div_add_self2 less_irrefl)
    then have "int k < ?n \<longleftrightarrow> int k \<le> (stop - start - 1) div step" by simp
    also have "\<dots> \<longleftrightarrow> int k * step \<le> stop - start - 1"
      by (rule le_div_iff_mult_le [OF assms])
    finally show ?thesis by auto
  qed
  show ?thesis
  proof (rule set_eqI, rule iffI)
    fix a assume "a \<in> set (py_range start stop step)"
    then obtain k where k: "k < nat ?n" "a = start + int k * step"
      using assms by (auto simp: py_range_def)
    then have "int k < ?n" by simp
    then have "a < stop" using bound k by simp
    moreover have "start \<le> a" using k assms by simp
    moreover have "step dvd (a - start)" using k by simp
    ultimately show "a \<in> {a. start \<le> a \<and> a < stop \<and> step dvd (a - start)}" by simp
  next
    fix a assume "a \<in> {a. start \<le> a \<and> a < stop \<and> step dvd (a - start)}"
    then have a: "start \<le> a" "a < stop" "step dvd (a - start)" by simp_all
    then obtain q where q: "a - start = step * q" by (auto simp: dvd_def)
    have "0 \<le> q" using a(1) q assms by (metis diff_ge_0_iff_ge zero_le_mult_iff not_less order_less_imp_le)
    then obtain k where k: "q = int k" using nonneg_int_cases by blast
    have ak: "a = start + int k * step" using q k by (simp add: mult.commute)
    then have "int k < ?n" using bound a(2) by simp
    then have "k < nat ?n" by simp
    then show "a \<in> set (py_range start stop step)"
      using assms ak by (auto simp: py_range_def image_iff intro!: bexI [of _ k])
  qed
qed

lemma py_range_pos_sorted:
  assumes "0 < step"
  shows "sorted_wrt (<) (py_range start stop step)"
  using assms by (auto simp: py_range_def sorted_wrt_map sorted_wrt_iff_nth_less)

subsection \<open>The best address\<close>

lemma find_best_loop_keeps:
  "\<forall>a \<in> set addrs. \<not> nr_overlaps T st a step < n0 \<Longrightarrow>
   find_best_loop T st step addrs (b0, n0) = (b0, n0)"
  by (induction addrs) auto

lemma find_best_loop_improves:
  assumes "sorted_wrt (<) addrs" "\<exists>a \<in> set addrs. nr_overlaps T st a step < n0"
  shows "\<exists>b \<in> set addrs. find_best_loop T st step addrs (b0, n0) = (b, nr_overlaps T st b step)
            \<and> nr_overlaps T st b step < n0
            \<and> (\<forall>a \<in> set addrs. nr_overlaps T st b step \<le> nr_overlaps T st a step
                   \<and> (nr_overlaps T st a step = nr_overlaps T st b step \<longrightarrow> b \<le> a))"
  using assms
proof (induction addrs arbitrary: b0 n0)
  case Nil
  then show ?case by simp
next
  case (Cons x xs)
  let ?f = "\<lambda>a. nr_overlaps T st a step"
  have sorted_xs: "sorted_wrt (<) xs" and x_less: "\<forall>a \<in> set xs. x < a"
    using Cons.prems(1) by simp_all
  show ?case
  proof (cases "?f x < n0")
    case True
    note better = this
    show ?thesis
    proof (cases "\<exists>a \<in> set xs. ?f a < ?f x")
      case True
      from Cons.IH [OF sorted_xs True, of x]
      obtain b where b: "b \<in> set xs"
        "find_best_loop T st step xs (x, ?f x) = (b, ?f b)" "?f b < ?f x"
        "\<forall>a \<in> set xs. ?f b \<le> ?f a \<and> (?f a = ?f b \<longrightarrow> b \<le> a)"
        by blast
      show ?thesis
        using b better by (intro bexI [of _ b]) auto
    next
      case False
      then have "find_best_loop T st step xs (x, ?f x) = (x, ?f x)"
        by (intro find_best_loop_keeps) simp
      then show ?thesis
        using better False x_less by (intro bexI [of _ x]) (auto simp: not_less)
    qed
  next
    case False
    then have ex: "\<exists>a \<in> set xs. ?f a < n0" using Cons.prems(2) by auto
    from Cons.IH [OF sorted_xs ex, of b0]
    obtain b where b: "b \<in> set xs"
      "find_best_loop T st step xs (b0, n0) = (b, ?f b)" "?f b < n0"
      "\<forall>a \<in> set xs. ?f b \<le> ?f a \<and> (?f a = ?f b \<longrightarrow> b \<le> a)"
      by blast
    show ?thesis
      using b False by (intro bexI [of _ b]) auto
  qed
qed

text \<open>The loop returns the initial address or one of the candidates.\<close>

lemma find_best_loop_fst_mem:
  "fst (find_best_loop T st step addrs (b0, n0)) \<in> insert b0 (set addrs)"
  by (induction addrs arbitrary: b0 n0) auto

text \<open>For every LUT state and every range with \<open>start < stop\<close> and \<open>step > 0\<close>,
  \<open>find_best_address\<close> returns a candidate address of the range.\<close>

lemma find_best_address_in_range:
  assumes "start < stop" and "0 < step"
  shows "\<exists>b. find_best_address T self start stop step = Inr b
           \<and> start \<le> b \<and> b < stop \<and> step dvd (b - start)"
proof -
  let ?b = "fst (find_best_loop T self step (py_range start stop step) (start, stop))"
  have "?b \<in> insert start (set (py_range start stop step))"
    by (rule find_best_loop_fst_mem)
  then have "start \<le> ?b \<and> ?b < stop \<and> step dvd (?b - start)"
    using assms by (auto simp: py_range_pos_set [OF assms(2)])
  then show ?thesis
    using assms(2) by (simp add: find_best_address_def)
qed

text \<open>When some candidate address overlaps fewer than \<open>stop\<close> resident LUTs, the
  returned candidate overlaps the fewest resident LUTs, and it is the lowest such
  address.\<close>

lemma find_best_address_minimal:
  assumes "start < stop" and "0 < step"
    and "\<exists>a. start \<le> a \<and> a < stop \<and> step dvd (a - start) \<and> nr_overlaps T self a step < stop"
  shows "\<exists>b. find_best_address T self start stop step = Inr b
           \<and> start \<le> b \<and> b < stop \<and> step dvd (b - start)
           \<and> (\<forall>a. start \<le> a \<and> a < stop \<and> step dvd (a - start) \<longrightarrow>
                  nr_overlaps T self b step \<le> nr_overlaps T self a step
                  \<and> (nr_overlaps T self a step = nr_overlaps T self b step \<longrightarrow> b \<le> a))"
proof -
  let ?cands = "py_range start stop step"
  have set_eq: "set ?cands = {a. start \<le> a \<and> a < stop \<and> step dvd (a - start)}"
    by (rule py_range_pos_set [OF assms(2)])
  have "\<exists>a \<in> set ?cands. nr_overlaps T self a step < stop"
    using assms(3) set_eq by auto
  from find_best_loop_improves [OF py_range_pos_sorted [OF assms(2)] this, of start]
  obtain b where b: "b \<in> set ?cands"
    "find_best_loop T self step ?cands (start, stop) = (b, nr_overlaps T self b step)"
    "\<forall>a \<in> set ?cands. nr_overlaps T self b step \<le> nr_overlaps T self a step
        \<and> (nr_overlaps T self a step = nr_overlaps T self b step \<longrightarrow> b \<le> a)"
    by blast
  have "find_best_address T self start stop step = Inr b"
    using assms(2) b(2) by (simp add: find_best_address_def)
  then show ?thesis
    using b(1,3) set_eq by (intro exI [of _ b]) auto
qed

text \<open>Otherwise the initial value \<open>best_addr = start\<close> is returned: the search starts
  from \<open>best_nr_overlaps = stop\<close>.\<close>

lemma find_best_address_default:
  assumes "0 < step"
    and "\<forall>a. start \<le> a \<and> a < stop \<and> step dvd (a - start) \<longrightarrow> stop \<le> nr_overlaps T self a step"
  shows "find_best_address T self start stop step = Inr start"
proof -
  have "\<forall>a \<in> set (py_range start stop step). \<not> nr_overlaps T self a step < stop"
    using assms by (auto simp: py_range_pos_set [OF assms(1)] not_less)
  then have "find_best_loop T self step (py_range start stop step) (start, stop) = (start, stop)"
    by (rule find_best_loop_keeps)
  then show ?thesis using assms(1) by (simp add: find_best_address_def)
qed

lemma nr_overlaps_le_length: "nr_overlaps T self a step \<le> int (length (tensors self))"
  by (simp add: nr_overlaps_def)

subsection \<open>The invariant of the LUT state\<close>

lemma overlaps_sym: "overlaps a b c d = overlaps c d a b"
  by (auto simp: overlaps_def)

lemma overlaps_iff_intersect: "overlaps a b c d \<longleftrightarrow> {a ..< b} \<inter> {c ..< d} \<noteq> {}"
proof
  assume "overlaps a b c d"
  then have "max a c \<in> {a ..< b} \<inter> {c ..< d}" by (auto simp: overlaps_def)
  then show "{a ..< b} \<inter> {c ..< d} \<noteq> {}" by blast
next
  assume "{a ..< b} \<inter> {c ..< d} \<noteq> {}"
  then obtain x where "x \<in> {a ..< b}" "x \<in> {c ..< d}" by blast
  then show "overlaps a b c d" by (simp add: overlaps_def)
qed

lemma interval_overlap_sym: "interval_overlap T t1 t2 = interval_overlap T t2 t1"
  unfolding interval_overlap_def by (rule overlaps_sym)

lemma lut_state_inv_init: "lut_state_inv T LUTState_init"
  by (simp add: lut_state_inv_def LUTState_init_def)

lemma lut_state_inv_cong:
  assumes "lut_state_inv T st" "\<forall>t \<in> set (tensors st). T' t = T t"
  shows "lut_state_inv T' st"
  using assms unfolding lut_state_inv_def interval_overlap_def by simp

lemma get_equivalent_None:
  "get_equivalent T st t = None \<Longrightarrow> \<forall>t' \<in> set (tensors st). \<not> equivalent (T t') (T t)"
  by (simp add: get_equivalent_def find_None_iff)

lemma get_equivalent_Some:
  "get_equivalent T st t = Some e \<Longrightarrow> e \<in> set (tensors st) \<and> equivalent (T e) (T t)"
  by (auto simp: get_equivalent_def find_Some_iff)

lemma equivalent_refl: "equivalent t t"
  by (simp add: equivalent_def)

lemma equivalent_sym: "equivalent a b = equivalent b a"
  by (auto simp: equivalent_def)

lemma lut_state_inv_put:
  assumes inv: "lut_state_inv T st"
    and fresh: "\<forall>t' \<in> set (tensors st). \<not> equivalent (T t') (T t)"
  shows "lut_state_inv T (put T st t)"
proof -
  have notin: "t \<notin> set (tensors st)" using fresh equivalent_refl by blast
  show ?thesis
    unfolding lut_state_inv_def
  proof (intro ballI impI)
    fix t1 t2
    assume t1: "t1 \<in> set (tensors (put T st t))" and t2: "t2 \<in> set (tensors (put T st t))"
      and ne: "t1 \<noteq> t2"
    have mem: "x \<in> set (tensors (put T st t)) \<longleftrightarrow>
                 x = t \<or> (x \<in> set (tensors st) \<and> \<not> interval_overlap T t x)" for x
      by (auto simp: put_def Let_def interval_overlap_def)
    consider (a) "t1 = t" "t2 \<in> set (tensors st)" "\<not> interval_overlap T t t2"
      | (b) "t2 = t" "t1 \<in> set (tensors st)" "\<not> interval_overlap T t t1"
      | (c) "t1 \<in> set (tensors st)" "t2 \<in> set (tensors st)"
      using t1 t2 ne mem [of t1] mem [of t2] by auto
    then show "\<not> equivalent (T t1) (T t2) \<and> \<not> interval_overlap T t1 t2"
    proof cases
      case a
      then show ?thesis using fresh equivalent_sym by blast
    next
      case b
      then show ?thesis using fresh interval_overlap_sym by blast
    next
      case c
      then show ?thesis using inv ne unfolding lut_state_inv_def by blast
    qed
  qed
qed

lemma tens_set_address:
  "tens (set_address S t a) t' = (if t' = t then (tens S t)\<lparr>address := a\<rparr> else tens S t')"
  by (simp add: set_address_def)

lemma tens_set_lut_index: "tens (set_lut_index S p i) = tens S"
  by (simp add: set_lut_index_def)

lemma rewrite_cmd_NpuStripe:
  "rewrite_cmd arch (NpuStripe p) (S, st, out) = Inr (S', st', out') \<Longrightarrow>
     S' = S \<and> out' = out @ [NpuStripe p] \<and> (st' = LUTState_init \<or> st' = st)"
  by (auto split: if_splits)

lemma rewrite_cmd_DMA_other:
  "purpose (tens S t) \<noteq> TensorPurpose.LUT \<Longrightarrow>
   rewrite_cmd arch (DMA p t) (S, st, out) = Inr (S, st, out @ [DMA p t])"
  by simp

lemma rewrite_cmd_DMA_resident:
  assumes "purpose (tens S t) = TensorPurpose.LUT" "get_equivalent (tens S) st t = Some e"
    and "rewrite_cmd arch (DMA p t) (S, st, out) = Inr (S', st', out')"
  shows "\<exists>slot pop. get_lut_index arch (tens (set_address S t (address (tens S e))) e) = Inr slot
           \<and> primary_op p = Some pop
           \<and> S' = set_lut_index (set_address S t (address (tens S e))) pop slot
           \<and> st' = st \<and> out' = out"
proof (cases "get_lut_index arch (tens (set_address S t (address (tens S e))) e)")
  case (Inl err)
  then show ?thesis using assms by (simp add: Let_def)
next
  case (Inr slot)
  show ?thesis
  proof (cases "primary_op p")
    case None
    then show ?thesis using assms Inr by (simp add: Let_def)
  next
    case (Some pop)
    then show ?thesis using assms Inr by (simp add: Let_def)
  qed
qed

lemma rewrite_cmd_DMA_fresh:
  assumes "purpose (tens S t) = TensorPurpose.LUT" "get_equivalent (tens S) st t = None"
    and "rewrite_cmd arch (DMA p t) (S, st, out) = Inr (S', st', out')"
  shows "\<exists>addr pop. find_best_address (tens S) st (shram_lut_address arch)
               (shram_lut_address arch + shram_lut_size arch) (storage_size (tens S t)) = Inr addr
           \<and> primary_op p = Some pop
           \<and> S' = set_lut_index (set_address S t addr) pop
                     ((addr - shram_lut_address arch) div slot_size)
           \<and> st' = put (tens S') st t \<and> out' = out @ [DMA p t]"
proof (cases "find_best_address (tens S) st (shram_lut_address arch)
               (shram_lut_address arch + shram_lut_size arch) (storage_size (tens S t))")
  case (Inl err)
  then show ?thesis using assms by simp
next
  case (Inr addr)
  show ?thesis
  proof (cases "primary_op p")
    case None
    then show ?thesis using assms Inr by (simp add: Let_def)
  next
    case (Some pop)
    then show ?thesis using assms Inr by (auto simp: Let_def)
  qed
qed

declare rewrite_cmd.simps [simp del]

lemma rewrite_cmd_inv:
  assumes run: "rewrite_cmd arch cmd (S, st, out) = Inr (S', st', out')"
    and inv: "lut_state_inv (tens S) st"
  shows "lut_state_inv (tens S') st'"
proof (cases cmd)
  case (NpuStripe p)
  have "rewrite_cmd arch (NpuStripe p) (S, st, out) = Inr (S', st', out')"
    using run unfolding NpuStripe .
  from rewrite_cmd_NpuStripe [OF this]
  have "S' = S" and "st' = LUTState_init \<or> st' = st" by blast+
  then show ?thesis using inv lut_state_inv_init by blast
next
  case (DMA p t)
  have run': "rewrite_cmd arch (DMA p t) (S, st, out) = Inr (S', st', out')"
    using run unfolding DMA .
  show ?thesis
  proof (cases "purpose (tens S t) = TensorPurpose.LUT")
    case False
    have "Inr (S, st, out @ [DMA p t]) = (Inr (S', st', out') :: error + _)"
      using run' rewrite_cmd_DMA_other [OF False, of arch p st out] by simp
    then have "S' = S" "st' = st" by simp_all
    then show ?thesis using inv by simp
  next
    case True
    note lut = this
    show ?thesis
    proof (cases "get_equivalent (tens S) st t")
      case None
      from rewrite_cmd_DMA_fresh [OF lut None run'] obtain addr pop where
        S': "S' = set_lut_index (set_address S t addr) pop
                        ((addr - shram_lut_address arch) div slot_size)"
        and st': "st' = put (tens S') st t"
        by blast
      have fresh: "\<forall>t' \<in> set (tensors st). \<not> equivalent (tens S t') (tens S t)"
        using None by (rule get_equivalent_None)
      then have notin: "t \<notin> set (tensors st)" using equivalent_refl by blast
      have tens_S': "tens S' x = (if x = t then (tens S t)\<lparr>address := addr\<rparr> else tens S x)" for x
        unfolding S' tens_set_lut_index by (rule tens_set_address)
      have same: "\<forall>t' \<in> set (tensors st). tens S' t' = tens S t'"
        using notin tens_S' by auto
      have inv': "lut_state_inv (tens S') st"
        using inv same by (rule lut_state_inv_cong)
      have "equivalence_id (tens S' t) = equivalence_id (tens S t)"
        using tens_S' [of t] by simp
      then have fresh': "\<forall>t' \<in> set (tensors st). \<not> equivalent (tens S' t') (tens S' t)"
        using fresh same by (simp add: equivalent_def)
      show ?thesis unfolding st' by (rule lut_state_inv_put [OF inv' fresh'])
    next
      case (Some e)
      from rewrite_cmd_DMA_resident [OF lut Some run'] obtain slot pop where
        S': "S' = set_lut_index (set_address S t (address (tens S e))) pop slot"
        and st': "st' = st"
        by blast
      have tens_S': "tens S' x = (if x = t then (tens S t)\<lparr>address := address (tens S e)\<rparr>
                                  else tens S x)" for x
        unfolding S' tens_set_lut_index by (rule tens_set_address)
      have e: "e \<in> set (tensors st)" "equivalent (tens S e) (tens S t)"
        using get_equivalent_Some [OF Some] by simp_all
      have same: "\<forall>t' \<in> set (tensors st). tens S' t' = tens S t'"
      proof
        fix t' assume t': "t' \<in> set (tensors st)"
        show "tens S' t' = tens S t'"
        proof (cases "t' = t")
          case True
          have "t = e"
          proof (rule ccontr)
            assume "t \<noteq> e"
            then have "e \<noteq> t" by simp
            moreover have "t \<in> set (tensors st)" using t' True by simp
            ultimately have "\<not> equivalent (tens S e) (tens S t)"
              using inv e(1) unfolding lut_state_inv_def by blast
            then show False using e(2) by simp
          qed
          then show ?thesis using True tens_S' [of t] by simp
        next
          case False
          then show ?thesis using tens_S' [of t'] by simp
        qed
      qed
      show ?thesis unfolding st' using inv same by (rule lut_state_inv_cong)
    qed
  qed
qed

lemma rewrite_cmds_Cons:
  "rewrite_cmds arch (cmd # cmds) s = Inr s' \<Longrightarrow>
     \<exists>s1. rewrite_cmd arch cmd s = Inr s1 \<and> rewrite_cmds arch cmds s1 = Inr s'"
  by (cases "rewrite_cmd arch cmd s") simp_all

lemma rewrite_cmds_inv:
  assumes "rewrite_cmds arch cmds (S, st, out) = Inr (S', st', out')"
    and "lut_state_inv (tens S) st"
  shows "lut_state_inv (tens S') st'"
  using assms
proof (induction cmds arbitrary: S st out)
  case Nil
  then show ?case by simp
next
  case (Cons cmd cmds)
  from rewrite_cmds_Cons [OF Cons.prems(1)] obtain s1 where
    s1': "rewrite_cmd arch cmd (S, st, out) = Inr s1"
         "rewrite_cmds arch cmds s1 = Inr (S', st', out')"
    by blast
  obtain S1 st1 out1 where s1_eq: "s1 = (S1, st1, out1)" by (cases s1) auto
  have s1: "rewrite_cmd arch cmd (S, st, out) = Inr (S1, st1, out1)"
        "rewrite_cmds arch cmds (S1, st1, out1) = Inr (S', st', out')"
    using s1' s1_eq by simp_all
  have "lut_state_inv (tens S1) st1"
    using rewrite_cmd_inv [OF s1(1) Cons.prems(2)] .
  then show ?case using Cons.IH [OF s1(2)] by simp
qed

text \<open>Claim C5. The LUT states reachable in the rewrite are the values of \<open>lut_state\<close>
  after the commands of a prefix of the stream, that is after any list of commands,
  starting from the empty state. In each of them no two resident tensors with distinct
  equivalence ids have overlapping address intervals
  \<open>[address, address + storage_size)\<close>.\<close>

theorem lut_state_no_overlap:
  assumes "rewrite_cmds arch cmds (S, LUTState_init, []) = Inr (S', lut_state, cmd_stream)"
  shows "\<forall>t1 \<in> set (tensors lut_state). \<forall>t2 \<in> set (tensors lut_state).
           equivalence_id (tens S' t1) \<noteq> equivalence_id (tens S' t2) \<longrightarrow>
           \<not> overlaps (address (tens S' t1)) (address (tens S' t1) + storage_size (tens S' t1))
                       (address (tens S' t2)) (address (tens S' t2) + storage_size (tens S' t2))"
proof (intro ballI impI)
  fix t1 t2
  assume t: "t1 \<in> set (tensors lut_state)" "t2 \<in> set (tensors lut_state)"
    and ne: "equivalence_id (tens S' t1) \<noteq> equivalence_id (tens S' t2)"
  have inv: "lut_state_inv (tens S') lut_state"
    using rewrite_cmds_inv [OF assms] by (simp add: lut_state_inv_init)
  from ne have "t1 \<noteq> t2" by auto
  then have "\<not> interval_overlap (tens S') t1 t2"
    using inv t unfolding lut_state_inv_def by blast
  then show "\<not> overlaps (address (tens S' t1)) (address (tens S' t1) + storage_size (tens S' t1))
                       (address (tens S' t2)) (address (tens S' t2) + storage_size (tens S' t2))"
    by (simp add: interval_overlap_def)
qed

subsection \<open>The rewritten command stream\<close>

lemma drops_only_subseq: "drops_only P xs ys \<Longrightarrow> subseq ys xs"
proof (induction xs arbitrary: ys)
  case Nil
  then show ?case by simp
next
  case (Cons x xs)
  then show ?case by (cases ys) (auto intro: subseq_Cons')
qed

lemma drops_only_filter:
  "drops_only P xs ys \<Longrightarrow> filter (\<lambda>x. \<not> P x) ys = filter (\<lambda>x. \<not> P x) xs"
proof (induction xs arbitrary: ys)
  case Nil
  then show ?case by simp
next
  case (Cons x xs)
  from Cons.prems consider
    (keep) ys' where "ys = x # ys'" "drops_only P xs ys'"
    | (drop) "P x" "drops_only P xs ys"
    by (cases ys) auto
  then show ?case
  proof cases
    case keep
    then show ?thesis using Cons.IH [of ys'] by simp
  next
    case drop
    then show ?thesis using Cons.IH [of ys] by simp
  qed
qed

lemma rewrite_cmd_stream:
  assumes run: "rewrite_cmd arch cmd (S, st, out) = Inr (S', st', out')"
  shows "(\<forall>t. purpose (tens S' t) = purpose (tens S t))
         \<and> (out' = out @ [cmd] \<or> (out' = out \<and> is_lut_dma (tens S) cmd))"
proof (cases cmd)
  case (NpuStripe p)
  have "rewrite_cmd arch (NpuStripe p) (S, st, out) = Inr (S', st', out')"
    using run unfolding NpuStripe .
  from rewrite_cmd_NpuStripe [OF this] show ?thesis by (simp add: NpuStripe)
next
  case (DMA p t)
  have run': "rewrite_cmd arch (DMA p t) (S, st, out) = Inr (S', st', out')"
    using run unfolding DMA .
  show ?thesis
  proof (cases "purpose (tens S t) = TensorPurpose.LUT")
    case False
    have "Inr (S, st, out @ [DMA p t]) = (Inr (S', st', out') :: error + _)"
      using run' rewrite_cmd_DMA_other [OF False, of arch p st out] by simp
    then show ?thesis by (simp add: DMA)
  next
    case True
    note lut = this
    show ?thesis
    proof (cases "get_equivalent (tens S) st t")
      case None
      from rewrite_cmd_DMA_fresh [OF lut None run'] obtain addr pop where
        S': "S' = set_lut_index (set_address S t addr) pop
                        ((addr - shram_lut_address arch) div slot_size)"
        and out': "out' = out @ [DMA p t]"
        by blast
      have "purpose (tens S' x) = purpose (tens S x)" for x
        unfolding S' tens_set_lut_index by (simp add: tens_set_address)
      then show ?thesis using out' DMA by simp
    next
      case (Some e)
      from rewrite_cmd_DMA_resident [OF lut Some run'] obtain slot pop where
        S': "S' = set_lut_index (set_address S t (address (tens S e))) pop slot"
        and out': "out' = out"
        by blast
      have "purpose (tens S' x) = purpose (tens S x)" for x
        unfolding S' tens_set_lut_index by (simp add: tens_set_address)
      then show ?thesis using out' DMA lut by (simp add: is_lut_dma_def)
    qed
  qed
qed

lemma drops_only_cong:
  "(\<And>x. x \<in> set xs \<Longrightarrow> P x = Q x) \<Longrightarrow> drops_only P xs ys = drops_only Q xs ys"
  by (induction xs arbitrary: ys) (auto split: list.splits)

lemma rewrite_cmds_stream:
  assumes "rewrite_cmds arch cmds (S, st, out) = Inr (S', st', out')"
  shows "\<exists>kept. out' = out @ kept \<and> drops_only (is_lut_dma (tens S)) cmds kept"
  using assms
proof (induction cmds arbitrary: S st out)
  case Nil
  then show ?case by simp
next
  case (Cons cmd cmds)
  from rewrite_cmds_Cons [OF Cons.prems(1)] obtain s1 where
    s1': "rewrite_cmd arch cmd (S, st, out) = Inr s1"
         "rewrite_cmds arch cmds s1 = Inr (S', st', out')"
    by blast
  obtain S1 st1 out1 where s1_eq: "s1 = (S1, st1, out1)" by (cases s1) auto
  have s1: "rewrite_cmd arch cmd (S, st, out) = Inr (S1, st1, out1)"
        "rewrite_cmds arch cmds (S1, st1, out1) = Inr (S', st', out')"
    using s1' s1_eq by simp_all
  from rewrite_cmd_stream [OF s1(1)]
  have purp: "\<forall>t. purpose (tens S1 t) = purpose (tens S t)"
    and step: "out1 = out @ [cmd] \<or> (out1 = out \<and> is_lut_dma (tens S) cmd)"
    by blast+
  from Cons.IH [OF s1(2)] obtain kept where
    kept: "out' = out1 @ kept" "drops_only (is_lut_dma (tens S1)) cmds kept"
    by blast
  have same: "is_lut_dma (tens S1) c = is_lut_dma (tens S) c" for c
    using purp by (cases c) (simp_all add: is_lut_dma_def)
  have kept': "drops_only (is_lut_dma (tens S)) cmds kept"
    using kept(2) drops_only_cong [of cmds "is_lut_dma (tens S1)" "is_lut_dma (tens S)" kept] same
    by simp
  from step show ?case
  proof
    assume "out1 = out @ [cmd]"
    then have "out' = out @ (cmd # kept)" using kept(1) by simp
    moreover have "drops_only (is_lut_dma (tens S)) (cmd # cmds) (cmd # kept)"
      using kept' by simp
    ultimately show ?thesis by blast
  next
    assume "out1 = out \<and> is_lut_dma (tens S) cmd"
    then have "out' = out @ kept" "drops_only (is_lut_dma (tens S)) (cmd # cmds) kept"
      using kept(1) kept' by simp_all
    then show ?thesis by blast
  qed
qed

text \<open>Claim C9. When the rewrite returns, the new command stream is the original one
  with some DMA commands to LUT tensors removed: it is a subsequence of the original
  stream, and the commands that are not DMA commands to a LUT tensor are the same, in the
  same order.\<close>

theorem optimize_cmd_stream_drops_only_lut_dma:
  assumes "optimize_high_level_cmd_stream arch S cmds = Inr (S', cmd_stream)"
  shows "drops_only (is_lut_dma (tens S)) cmds cmd_stream
         \<and> subseq cmd_stream cmds
         \<and> filter (\<lambda>c. \<not> is_lut_dma (tens S) c) cmd_stream
             = filter (\<lambda>c. \<not> is_lut_dma (tens S) c) cmds"
proof -
  obtain st' where run: "rewrite_cmds arch cmds (S, LUTState_init, []) = Inr (S', st', cmd_stream)"
    using assms unfolding optimize_high_level_cmd_stream_def
    by (cases "rewrite_cmds arch cmds (S, LUTState_init, [])") auto
  from rewrite_cmds_stream [OF run]
  have d: "drops_only (is_lut_dma (tens S)) cmds cmd_stream" by simp
  show ?thesis using d drops_only_subseq [OF d] drops_only_filter [OF d] by simp
qed

subsection \<open>Concrete runs\<close>


text \<open>An instance of \<open>find_best_address_minimal\<close>: with one LUT resident in the
  first slot, the second slot is returned.\<close>

lemma nr_one_0: "nr_overlaps one_lut_tensors one_lut_state 0 256 = 1"
  by (simp add: nr_overlaps_def one_lut_tensors_def one_lut_state_def lut_tensor_at_def overlaps_def)

lemma find_best_address_second_slot:
  "find_best_address one_lut_tensors one_lut_state 0 2048 256 = Inr 256"
proof -
  have nr: "nr_overlaps one_lut_tensors one_lut_state a 256 = (if a < 256 \<and> -256 < a then 1 else 0)" for a
    by (auto simp: nr_overlaps_def one_lut_tensors_def one_lut_state_def lut_tensor_at_def overlaps_def)
  have h: "\<exists>a. (0::int) \<le> a \<and> a < 2048 \<and> (256::int) dvd (a - 0)
             \<and> nr_overlaps one_lut_tensors one_lut_state a 256 < 2048"
    by (intro exI [of _ 0]) (simp add: nr)
  from find_best_address_minimal [of 0 2048 256 one_lut_tensors one_lut_state, OF _ _ h]
  obtain b where b: "find_best_address one_lut_tensors one_lut_state 0 2048 256 = Inr b"
    "0 \<le> b" "b < 2048" "256 dvd (b - 0)"
    "\<forall>a. 0 \<le> a \<and> a < 2048 \<and> 256 dvd (a - 0) \<longrightarrow>
        nr_overlaps one_lut_tensors one_lut_state b 256 \<le> nr_overlaps one_lut_tensors one_lut_state a 256
        \<and> (nr_overlaps one_lut_tensors one_lut_state a 256 = nr_overlaps one_lut_tensors one_lut_state b 256 \<longrightarrow> b \<le> a)"
    by auto
  from b(5) [rule_format, of 256] have "256 \<le> b" "b \<le> 256"
    using b(2,3,4) by (auto simp: nr split: if_splits)
  then show ?thesis using b(1) by simp
qed

lemmas lut_eval =
  optimize_high_level_cmd_stream_def rewrite_cmd.simps get_equivalent_def equivalent_def
  find_best_address_def py_range_def nr_overlaps_def overlaps_def put_def get_lut_index_def
  set_address_def set_lut_index_def slot_size_def LUTState_init_def Let_def
  lut_tensor_at_def upt_rec

lemma example_run:
  "rewrite_cmds example_arch example_stream (example_store, LUTState_init, []) =
     Inr (example_result_store, \<lparr>tensors = [1, 0]\<rparr>, [dma_cmd 10 0, dma_cmd 11 1])"
  by (simp add: lut_eval example_arch_def example_store_def example_stream_def dma_cmd_def
      example_result_store_def fun_eq_iff)

theorem lut_state_no_overlap_witness:
  "rewrite_cmds example_arch example_stream (example_store, LUTState_init, []) =
     Inr (example_result_store, \<lparr>tensors = [1, 0]\<rparr>, [dma_cmd 10 0, dma_cmd 11 1])
   \<and> equivalence_id (tens example_result_store 1) \<noteq> equivalence_id (tens example_result_store 0)
   \<and> \<not> overlaps (address (tens example_result_store 1))
                 (address (tens example_result_store 1) + storage_size (tens example_result_store 1))
                 (address (tens example_result_store 0))
                 (address (tens example_result_store 0) + storage_size (tens example_result_store 0))"
proof -
  have ne: "equivalence_id (tens example_result_store 1) \<noteq> equivalence_id (tens example_result_store 0)"
    by (simp add: example_result_store_def lut_tensor_at_def)
  from lut_state_no_overlap [OF example_run] ne show ?thesis
    using example_run by simp
qed

text \<open>Claim C2 on this stream. The third command copies a 512 byte LUT that is equivalent
  to the resident tensor 1 at address 1536. The command is dropped and the address of its
  tensor is set to 1536, but \<open>get_lut_index\<close> divides by the storage size of the LUT:
  the primary operation 12 gets \<open>lut_index = (1536 - 1024) div 512 = 1\<close>, not
  \<open>(1536 - 1024) div 256 = 2\<close>, which is the index the second command has set for the
  same LUT at the same address.\<close>

theorem resident_lut_index_uses_storage_size:
  "optimize_high_level_cmd_stream example_arch example_store example_stream =
     Inr (example_result_store, [dma_cmd 10 0, dma_cmd 11 1])
   \<and> address (tens example_result_store 2) = address (tens example_result_store 1)
   \<and> lut_index example_result_store 11 = Some 2
   \<and> lut_index example_result_store 12 = Some 1
   \<and> (address (tens example_result_store 1) - shram_lut_address example_arch) div 256 = 2"
  using example_run
  by (simp add: optimize_high_level_cmd_stream_def example_result_store_def example_arch_def
      lut_tensor_at_def)

lemma repeated_run:
  "optimize_high_level_cmd_stream example_arch repeated_store repeated_stream =
     Inr (repeated_result_store, [dma_cmd 10 0, stripe_cmd 10 0, stripe_cmd 11 3])"
  by (simp add: lut_eval example_arch_def repeated_store_def repeated_stream_def dma_cmd_def
      stripe_cmd_def repeated_result_store_def fun_eq_iff)

theorem optimize_cmd_stream_witness:
  "optimize_high_level_cmd_stream example_arch repeated_store repeated_stream =
     Inr (repeated_result_store, [dma_cmd 10 0, stripe_cmd 10 0, stripe_cmd 11 3])
   \<and> drops_only (is_lut_dma (tens repeated_store)) repeated_stream
         [dma_cmd 10 0, stripe_cmd 10 0, stripe_cmd 11 3]
   \<and> subseq [dma_cmd 10 0, stripe_cmd 10 0, stripe_cmd 11 3] repeated_stream"
  using optimize_cmd_stream_drops_only_lut_dma [OF repeated_run] repeated_run by simp

section \<open>Properties of the legality checker\<close>

subsection \<open>The shape constraints of binary elementwise operators\<close>

lemma broadcast_loop_True_iff: "broadcast_loop ts = Inr True \<longleftrightarrow> list_all broadcast_dims_ok ts"
proof (induction ts rule: broadcast_loop.induct)
  case 1
  then show ?case by simp
next
  case (2 i i2 out rest)
  then show ?case by (cases out) (auto simp: broadcast_dims_ok_def Let_def)
next
  case (3 i out rest)
  then show ?case by (simp add: broadcast_dims_ok_def)
next
  case (4 i2 out rest)
  then show ?case by (simp add: broadcast_dims_ok_def)
qed

lemma last_elems_rev:
  assumes "0 < n"
  shows "last_elems xs n = rev (take n (rev xs))"
  using assms by (simp add: last_elems_def take_rev)

lemma zip3_rev:
  assumes "length xs = length ys" "length ys = length zs"
  shows "zip3 (rev xs) (rev ys) (rev zs) = rev (zip3 xs ys zs)"
  using assms by (simp add: zip3_def zip_rev)

lemma list_all_zip3_take:
  assumes "n \<le> length xs" "n \<le> length ys" "n \<le> length zs"
  shows "list_all P (zip3 (take n xs) (take n ys) (take n zs))
           \<longleftrightarrow> (\<forall>k<n. P (xs ! k, ys ! k, zs ! k))"
  using assms by (simp add: zip3_def list_all_length min_absorb2)

lemma list_all_trailing:
  assumes "n = min (length xs) (length ys)" "n \<le> length zs"
  shows "list_all P (zip3 (last_elems xs n) (last_elems ys n) (last_elems zs n))
           \<longleftrightarrow> (\<forall>k<n. P (rev xs ! k, rev ys ! k, rev zs ! k))"
proof (cases "n = 0")
  case True
  then have "xs = [] \<or> ys = []" using assms(1) by (auto simp: min_def split: if_splits)
  then have "zip3 (last_elems xs n) (last_elems ys n) (last_elems zs n) = []"
    using True by (auto simp: zip3_def last_elems_def)
  then show ?thesis using True by simp
next
  case False
  then have pos: "0 < n" by simp
  have len: "n \<le> length (rev xs)" "n \<le> length (rev ys)" "n \<le> length (rev zs)"
    using assms by simp_all
  have "zip3 (last_elems xs n) (last_elems ys n) (last_elems zs n)
          = rev (zip3 (take n (rev xs)) (take n (rev ys)) (take n (rev zs)))"
    using len by (simp add: last_elems_rev [OF pos] zip3_rev min_absorb2)
  then show ?thesis
    using list_all_zip3_take [OF len, of P] by simp
qed

lemma elementwise_shapes_ok_iff:
  "elementwise_shapes_ok A B C \<longleftrightarrow>
     (A = C \<or> B = C) \<and> (\<forall>k < min (length A) (length B). broadcast_dims_ok (rev A ! k, rev B ! k, rev C ! k))"
  by (auto simp: elementwise_shapes_ok_def trailing_dim_def list_all_iff)

text \<open>Claim C7. For an Add, Mul or Sub operator with both inputs and the OFM present,
  \<open>constraint_matching_either_shapes\<close> and \<open>constraint_broadcast_shapes\<close> (both are in the
  list of specific constraints of these operator kinds) pass if and only if at least one
  input shape equals the OFM shape and, along every aligned trailing dimension, the two
  input dimensions are equal or one of them is 1 while the OFM dimension is the maximum
  of the two. A dimension that is not defined satisfies neither side.\<close>

theorem elementwise_shape_constraints_iff:
  assumes "type op \<in> binary_elem_wise_add_mul_sub"
    and "ifm op = Some i" and "ifm2 op = Some i2" and "ofm op = Some out"
  shows "constraint_matching_either_shapes \<in> set (specific_constraints_init ext (type op))
       \<and> constraint_broadcast_shapes \<in> set (specific_constraints_init ext (type op))
       \<and> ((constraint_matching_either_shapes op = Inr True
              \<and> constraint_broadcast_shapes op = Inr True)
            \<longleftrightarrow> elementwise_shapes_ok (shape i) (shape i2) (shape out))"
proof -
  have rows: "constraint_matching_either_shapes \<in> set (specific_constraints_init ext (type op))"
    "constraint_broadcast_shapes \<in> set (specific_constraints_init ext (type op))"
    using assms(1)
    by (simp_all add: specific_constraints_init_def elem_wise_main_ops_def
        binary_elem_wise_main_ops_def)
  let ?n = "min (length (shape i)) (length (shape i2))"
  have either: "constraint_matching_either_shapes op = Inr True
                  \<longleftrightarrow> (shape i = shape out \<or> shape i2 = shape out)"
    using assms(2-4) by (simp add: constraint_matching_either_shapes_def)
  have bc: "constraint_broadcast_shapes op =
              broadcast_loop (zip3 (last_elems (shape i) ?n) (last_elems (shape i2) ?n)
                                (last_elems (shape out) ?n))"
    using assms(2-4) by (simp add: constraint_broadcast_shapes_def Let_def)
  have iff: "(constraint_matching_either_shapes op = Inr True
              \<and> constraint_broadcast_shapes op = Inr True)
            \<longleftrightarrow> elementwise_shapes_ok (shape i) (shape i2) (shape out)"
  proof (cases "shape i = shape out \<or> shape i2 = shape out")
    case False
    then show ?thesis using either by (simp add: elementwise_shapes_ok_iff)
  next
    case True
    then have len: "?n \<le> length (shape out)" by auto
    have "constraint_broadcast_shapes op = Inr True
            \<longleftrightarrow> (\<forall>k < ?n. broadcast_dims_ok (rev (shape i) ! k, rev (shape i2) ! k, rev (shape out) ! k))"
      unfolding bc broadcast_loop_True_iff
      by (rule list_all_trailing [OF refl len])
    then show ?thesis using either True by (simp add: elementwise_shapes_ok_iff)
  qed
  show ?thesis using rows iff by simp
qed

lemma add_op_fields:
  "type (create_elemwise_op k a b c) = k"
  "ifm (create_elemwise_op k a b c) = Some (quant_tensor a uint8)"
  "ifm2 (create_elemwise_op k a b c) = Some (quant_tensor b uint8)"
  "ofm (create_elemwise_op k a b c) = Some (quant_tensor c uint8)"
  by (simp_all add: create_elemwise_op_def)

lemma shape_quant_tensor: "shape (quant_tensor shp dt) = map Some shp"
  by (simp add: quant_tensor_def plain_tensor_def)

text \<open>The two operators of the claim: Add of \<open>[1, 4]\<close> and \<open>[4, 4]\<close> giving \<open>[4, 4]\<close>
  passes, Add of \<open>[1, 1, 4, 1]\<close> and \<open>[1, 4, 1, 16]\<close> giving \<open>[1, 4, 4, 16]\<close> does
  not.\<close>

theorem elementwise_shape_constraints_witness:
  "(constraint_matching_either_shapes (create_elemwise_op Add [1, 4] [4, 4] [4, 4]) = Inr True
      \<and> constraint_broadcast_shapes (create_elemwise_op Add [1, 4] [4, 4] [4, 4]) = Inr True)
   \<and> \<not> (constraint_matching_either_shapes
            (create_elemwise_op Add [1, 1, 4, 1] [1, 4, 1, 16] [1, 4, 4, 16]) = Inr True
          \<and> constraint_broadcast_shapes
            (create_elemwise_op Add [1, 1, 4, 1] [1, 4, 1, 16] [1, 4, 4, 16]) = Inr True)"
proof -
  have add: "Add \<in> binary_elem_wise_add_mul_sub"
    by (simp add: binary_elem_wise_add_mul_sub_def)
  have ok: "elementwise_shapes_ok (map Some [1, 4]) (map Some [4, 4]) (map Some [4, 4])"
    by (simp add: elementwise_shapes_ok_def trailing_dim_def broadcast_dims_ok_def upt_rec)
  have bad: "\<not> elementwise_shapes_ok (map Some [1, 1, 4, 1]) (map Some [1, 4, 1, 16])
                  (map Some [1, 4, 4, 16])"
    by (simp add: elementwise_shapes_ok_def)
  from elementwise_shape_constraints_iff
         [of "create_elemwise_op Add [1, 4] [4, 4] [4, 4]" _ _ _ no_ext, OF _ add_op_fields(2-4)]
       elementwise_shape_constraints_iff
         [of "create_elemwise_op Add [1, 1, 4, 1] [1, 4, 1, 16] [1, 4, 4, 16]" _ _ _ no_ext,
          OF _ add_op_fields(2-4)]
  show ?thesis
    using add ok bad by (simp add: add_op_fields shape_quant_tensor)
qed

subsection \<open>What acceptance guarantees\<close>

lemma check_constraints_True:
  "check_constraints cs op = Inr True \<longleftrightarrow> (\<forall>c \<in> set cs. c op = Inr True)"
proof (induction cs)
  case Nil
  then show ?case by simp
next
  case (Cons c cs)
  show ?case
  proof (cases "c op")
    case (Inl e)
    then show ?thesis by simp
  next
    case (Inr valid)
    then show ?thesis using Cons.IH by (cases valid) auto
  qed
qed

lemma set_not_none: "set (not_none xs) = {x. Some x \<in> set xs}"
  by (induction xs rule: not_none.induct) auto

lemma all_dims_in_range_True:
  "all_dims_in_range dims = Inr True
     \<longleftrightarrow> (\<forall>d \<in> set dims. \<exists>n. d = Some n \<and> 1 \<le> n \<and> n \<le> 65535)"
  by (induction dims rule: all_dims_in_range.induct) (auto simp: tens_dim_range_def)

lemma tens_dimension_loop_True:
  "tens_dimension_loop ts valid = Inr True
     \<longleftrightarrow> valid \<and> (\<forall>t \<in> set ts. all_dims_in_range (shape t) = Inr True)"
proof (induction ts arbitrary: valid)
  case Nil
  then show ?case by simp
next
  case (Cons t ts)
  show ?case
  proof (cases "all_dims_in_range (shape t)")
    case (Inl e)
    then show ?thesis by simp
  next
    case (Inr ok)
    then show ?thesis using Cons.IH by (cases ok) auto
  qed
qed

lemma quant_scale_loop_True:
  "quant_scale_loop ts valid = Inr True \<longleftrightarrow> valid \<and> (\<forall>t \<in> set ts. scale_not_inf t)"
proof (induction ts arbitrary: valid)
  case Nil
  then show ?case by simp
next
  case (Cons t ts)
  show ?case
  proof (cases "quantization t")
    case None
    then show ?thesis by (simp add: scale_not_inf_def)
  next
    case (Some q)
    then show ?thesis using Cons.IH
      by (cases "scale_f32 q") (auto simp: scale_not_inf_def)
  qed
qed

lemma generic_constraints_hold:
  assumes "is_operator_supported (SupportedOperators_init ext) op = Inr True"
  shows "type op \<in> supported_operators"
    and "\<forall>c \<in> set generic_constraints_init. c op = Inr True"
proof -
  show in_set: "type op \<in> supported_operators"
    using assms by (auto simp: is_operator_supported_def split: if_splits)
  then have "check_constraints
               (generic_constraints_init @ specific_constraints_init ext (type op)) op = Inr True"
    using assms by (simp add: is_operator_supported_def SupportedOperators_init_def)
  then show "\<forall>c \<in> set generic_constraints_init. c op = Inr True"
    by (simp add: check_constraints_True)
qed

text \<open>Claim C1, as amended. For every operator that \<open>is_operator_supported\<close> accepts:
  every tensor in its input and output lists has rank at most 4; the OFM exists; and
  every tensor among IFM, IFM2, weights and OFM has a data type in
  \<open>{uint8, int8, int16, int32}\<close>, every shape dimension in \<open>[1, 65535]\<close>, and
  quantization parameters whose scale, when set, is not infinite. This holds whatever
  the constraints \<open>ext\<close> are.\<close>

theorem accepted_operator_tensors:
  assumes "is_operator_supported (SupportedOperators_init ext) op = Inr True"
  shows "type op \<in> supported_operators
       \<and> ofm op \<noteq> None
       \<and> (\<forall>t. Some t \<in> set (inputs op @ outputs op) \<longrightarrow> length (shape t) \<le> 4)
       \<and> (\<forall>t. Some t \<in> set [ifm op, ifm2 op, weights op, ofm op] \<longrightarrow>
              dtype t \<in> supported_op_dtypes
              \<and> (\<forall>d \<in> set (shape t). \<exists>n. d = Some n \<and> 1 \<le> n \<and> n \<le> 65535)
              \<and> scale_not_inf t)"
proof -
  note g = generic_constraints_hold [OF assms]
  have c: "constraint_tens_output_scalar op = Inr True"
    "constraint_tens_shape_size op = Inr True"
    "constraint_tens_dtype op = Inr True"
    "constraint_tens_dimension op = Inr True"
    "constraint_tens_quant_scale op = Inr True"
    using g(2) by (simp_all add: generic_constraints_init_def)
  have ofm: "ofm op \<noteq> None"
    using c(1) by (auto simp: constraint_tens_output_scalar_def split: option.splits)
  have rank: "\<forall>t. Some t \<in> set (inputs op @ outputs op) \<longrightarrow> length (shape t) \<le> 4"
    using c(2) by (auto simp: constraint_tens_shape_size_def list_all_iff set_not_none)
  have "not_none (get_ifm_ifm2_weights_ofm op) \<noteq> []"
    using ofm by (auto simp: get_ifm_ifm2_weights_ofm_def set_not_none
        simp flip: set_empty)
  then have checked: "checked_tensors op = not_none (get_ifm_ifm2_weights_ofm op)"
    by (simp add: checked_tensors_def Let_def)
  have mem: "t \<in> set (not_none (get_ifm_ifm2_weights_ofm op))
               \<longleftrightarrow> Some t \<in> set [ifm op, ifm2 op, weights op, ofm op]" for t
    by (simp add: set_not_none get_ifm_ifm2_weights_ofm_def)
  have covered: "dtype t \<in> supported_op_dtypes
              \<and> (\<forall>d \<in> set (shape t). \<exists>n. d = Some n \<and> 1 \<le> n \<and> n \<le> 65535)
              \<and> scale_not_inf t"
    if "Some t \<in> set [ifm op, ifm2 op, weights op, ofm op]" for t
  proof -
    have t: "t \<in> set (not_none (get_ifm_ifm2_weights_ofm op))" using that mem by blast
    have "dtype t \<in> supported_op_dtypes"
      using c(3) t by (simp add: constraint_tens_dtype_def checked list_all_iff)
    moreover have "all_dims_in_range (shape t) = Inr True"
      using c(4) t by (simp add: constraint_tens_dimension_def checked tens_dimension_loop_True)
    moreover have "scale_not_inf t"
      using c(5) t by (simp add: constraint_tens_quant_scale_def quant_scale_loop_True)
    ultimately show ?thesis by (simp add: all_dims_in_range_True)
  qed
  show ?thesis using g(1) ofm rank covered by blast
qed

lemmas checker_eval =
  is_operator_supported_def SupportedOperators_init_def generic_constraints_init_def
  specific_constraints_init_def supported_operators_def npu_pre_ops_def mac_main_ops_def
  convolution_like_ops_def convolution_ops_def depthwise_convolution_ops_def
  transpose_convolution_ops_def pooling_ops_def max_pooling_ops_def avg_pooling_ops_def
  resizing_ops_def fc_vector_products_def elem_wise_main_ops_def binary_elem_wise_main_ops_def
  binary_elem_wise_min_max_ops_def binary_elem_wise_add_mul_sub_def
  binary_elem_wise_shift_ops_def unary_elem_wise_main_ops_def npu_post_ops_def
  activation_ops_def relu_ops_def memory_only_ops_def concat_ops_def split_ops_def
  shapeless_input_ops_def per_axis_quant_ops_def supported_int32_tensor_ops_def
  supported_op_dtypes_def supported_bias_dtypes_def tens_dim_range_def
  constraint_tens_no_dynamic_def constraint_tens_defined_shape_def
  constraint_tens_output_scalar_def constraint_tens_input_scalar_def
  constraint_tens_shape_size_def constraint_tens_dtype_def constraint_tens_int32_ops_def
  constraint_tens_dimension_def constraint_tens_quant_none_check_def
  constraint_tens_quant_scale_def constraint_tens_quant_per_axis_def constraint_faf_def
  checked_tensors_def get_ifm_ifm2_weights_ofm_def has_fully_defined_shape_def
  shape_fully_defined_def is_per_axis_def
  constraint_weights_type_def constraint_weights_const_def constraint_bias_type_def
  constraint_bias_40bit_def constraint_elemwise_batch_size_def
  constraint_matching_either_shapes_def constraint_matching_inputs_types_def
  constraint_matching_signed_def constraint_unsigned_valid_def constraint_broadcast_shapes_def
  element_size_def last_elems_def zip3_def Let_def
  quant_tensor_def plain_tensor_def default_quant_params_def

lemma fc_op_supported: "is_operator_supported (SupportedOperators_init no_ext) fc_op = Inr True"
  by (simp add: checker_eval fc_op_def fc_bias_def fc_ofm_def fc_weights_def)

lemma add_op_supported:
  "is_operator_supported (SupportedOperators_init no_ext)
     (create_elemwise_op Add [1, 4] [4, 4] [4, 4]) = Inr True"
  by (simp add: checker_eval create_elemwise_op_def)

lemma add_op_bad_unsupported:
  "is_operator_supported (SupportedOperators_init no_ext)
     (create_elemwise_op Add [1, 1, 4, 1] [1, 4, 1, 16] [1, 4, 4, 16]) = Inr False"
  by (simp add: checker_eval create_elemwise_op_def)

text \<open>Claim C1 fails as stated: the fully connected operation \<open>fc_op\<close> is accepted, while
  its bias, a tensor of its input list, has data type int64, no quantization and a
  dimension above 65535, and the quantization of its OFM has no scale.\<close>

theorem accepted_operator_unchecked_tensors:
  "is_operator_supported (SupportedOperators_init no_ext) fc_op = Inr True
   \<and> Some fc_bias \<in> set (inputs fc_op)
   \<and> dtype fc_bias \<notin> supported_op_dtypes
   \<and> quantization fc_bias = None
   \<and> Some 70000 \<in> set (shape fc_bias)
   \<and> Some fc_ofm \<in> set (outputs fc_op)
   \<and> map_option scale_f32 (quantization fc_ofm) = Some None"
  using fc_op_supported
  by (simp add: fc_op_def fc_bias_def fc_ofm_def plain_tensor_def supported_op_dtypes_def)

text \<open>A witness: the accepted Add operator, for its first input.\<close>

theorem accepted_operator_tensors_witness:
  "is_operator_supported (SupportedOperators_init no_ext)
     (create_elemwise_op Add [1, 4] [4, 4] [4, 4]) = Inr True
   \<and> length (shape (quant_tensor [1, 4] uint8)) \<le> 4
   \<and> dtype (quant_tensor [1, 4] uint8) \<in> supported_op_dtypes
   \<and> scale_not_inf (quant_tensor [1, 4] uint8)"
proof -
  have "Some (quant_tensor [1, 4] uint8)
          \<in> set [ifm (create_elemwise_op Add [1, 4] [4, 4] [4, 4]),
                 ifm2 (create_elemwise_op Add [1, 4] [4, 4] [4, 4]),
                 weights (create_elemwise_op Add [1, 4] [4, 4] [4, 4]),
                 ofm (create_elemwise_op Add [1, 4] [4, 4] [4, 4])]"
    by (simp add: create_elemwise_op_def)
  moreover have "Some (quant_tensor [1, 4] uint8)
          \<in> set (inputs (create_elemwise_op Add [1, 4] [4, 4] [4, 4])
                 @ outputs (create_elemwise_op Add [1, 4] [4, 4] [4, 4]))"
    by (simp add: create_elemwise_op_def)
  ultimately show ?thesis
    using accepted_operator_tensors [OF add_op_supported] add_op_supported by blast
qed

end
